theory Spec2Isabelle
  imports Main
begin

section \<open>JavaScript values, strings and errors\<close>

text \<open>
  The adapters (Coleslaw in \<^verbatim>\<open>src/unnamed/part_003\<close>, Franklin.jl in
  \<^verbatim>\<open>src/unnamed/part_004\<close>, ScalaTex in \<^verbatim>\<open>src/adapters/scalatex.js\<close>)
  receive loosely typed parameters. A parameter value is one of the JavaScript
  primitives or a plain object. \<open>Num n\<close> is a number with the integral value \<open>n\<close>
  (fractions, NaN and the infinities are not represented); \<open>Obj\<close> is a plain
  object without methods of its own (arrays are not represented). A string is a
  list of 8-bit characters, standing for the code units below 256.
\<close>

datatype jsval = Undefined | Null | Bool bool | Num int | Str string | Obj

datatype jserror = Error string | TypeError string

fun message :: "jserror \<Rightarrow> string" where
  "message (Error m) = m"
| "message (TypeError m) = m"

text \<open>\<^verbatim>\<open>!v\<close> is \<open>\<not> truthy v\<close>.\<close>

fun truthy :: "jsval \<Rightarrow> bool" where
  "truthy Undefined = False"
| "truthy Null = False"
| "truthy (Bool b) = b"
| "truthy (Num n) = (n \<noteq> 0)"
| "truthy (Str s) = (s \<noteq> [])"
| "truthy Obj = True"

definition digit_char :: "nat \<Rightarrow> char" where
  "digit_char d = ''0123456789'' ! d"

fun digits10 :: "nat \<Rightarrow> string" where
  "digits10 n = (if n < 10 then [digit_char n] else digits10 (n div 10) @ [digit_char (n mod 10)])"

declare digits10.simps [simp del]

text \<open>The decimal text of an integer.\<close>

definition show_int :: "int \<Rightarrow> string" where
  "show_int i = (if i < 0 then CHR ''-'' # digits10 (nat (- i)) else digits10 (nat i))"

text \<open>
  Number::toString on an integral value. Below \<open>10 ^ 21\<close> in magnitude the text is
  the decimal digits; from \<open>10 ^ 21\<close> on it is exponent notation: the first
  significant digit, a point and the other significant digits when there are any,
  then \<^verbatim>\<open>e+\<close> and the exponent (\<^verbatim>\<open>1e+21\<close>, \<^verbatim>\<open>1.5e+21\<close>). The integers of the
  model are exact: a double of magnitude \<open>2 ^ 53\<close> or more prints the shortest
  digits that tell it from its neighbours, which can be fewer than the ones here.
\<close>

definition strip_trailing_zeros :: "string \<Rightarrow> string" where
  "strip_trailing_zeros ds = rev (dropWhile (\<lambda>c. c = CHR ''0'') (rev ds))"

definition exponent_notation :: "nat \<Rightarrow> string" where
  "exponent_notation m =
     (let ds = digits10 m; s = strip_trailing_zeros ds
      in (if length s = 1 then s else hd s # CHR ''.'' # tl s) @ ''e+'' @ digits10 (length ds - 1))"

definition Number_toString :: "int \<Rightarrow> string" where
  "Number_toString i =
     (let m = nat \<bar>i\<bar>;
          text = (if m < 10 ^ 21 then digits10 m else exponent_notation m)
      in if i < 0 then CHR ''-'' # text else text)"

text \<open>The abstract operation ToString, used by template literals, \<^verbatim>\<open>parseInt\<close>
  and \<^verbatim>\<open>RegExp.prototype.test\<close>.\<close>

fun ToString :: "jsval \<Rightarrow> string" where
  "ToString Undefined = ''undefined''"
| "ToString Null = ''null''"
| "ToString (Bool b) = (if b then ''true'' else ''false'')"
| "ToString (Num n) = Number_toString n"
| "ToString (Str s) = s"
| "ToString Obj = ''[object Object]''"

text \<open>\<^verbatim>\<open>s.includes(sub)\<close> on strings.\<close>

fun str_includes :: "string \<Rightarrow> string \<Rightarrow> bool" where
  "str_includes [] sub = (sub = [])"
| "str_includes (c # cs) sub = (take (length sub) (c # cs) = sub \<or> str_includes cs sub)"

subsection \<open>Character classes of the regular expressions\<close>

definition is_digit :: "char \<Rightarrow> bool" where
  "is_digit c = (48 \<le> (of_char c :: nat) \<and> (of_char c :: nat) \<le> 57)"

definition is_upper :: "char \<Rightarrow> bool" where
  "is_upper c = (65 \<le> (of_char c :: nat) \<and> (of_char c :: nat) \<le> 90)"

definition is_lower :: "char \<Rightarrow> bool" where
  "is_lower c = (97 \<le> (of_char c :: nat) \<and> (of_char c :: nat) \<le> 122)"

definition is_alnum :: "char \<Rightarrow> bool" where
  "is_alnum c = (is_lower c \<or> is_upper c \<or> is_digit c)"

text \<open>\<^verbatim>\<open>[()"`'\\;#|]\<close> of \<^verbatim>\<open>sanitizeLispString\<close>.\<close>

definition lisp_special :: "char \<Rightarrow> bool" where
  "lisp_special c = (c \<in> set [CHR ''('', CHR '')'', CHR 0x22, CHR 0x60, CHR 0x27, CHR 0x5C,
     CHR '';'', CHR ''#'', CHR ''|''])"

text \<open>\<^verbatim>\<open>[;`$()\\"\n\r]\<close> of \<^verbatim>\<open>sanitizeJuliaString\<close>.\<close>

definition julia_special :: "char \<Rightarrow> bool" where
  "julia_special c = (c \<in> set [CHR '';'', CHR 0x60, CHR ''$'', CHR ''('', CHR '')'', CHR 0x5C,
     CHR 0x22, CHR 0x0A, CHR 0x0D])"

text \<open>\<^verbatim>\<open>[;&|`$]\<close> of ScalaTex's \<^verbatim>\<open>validatePath\<close>.\<close>

definition scala_path_special :: "char \<Rightarrow> bool" where
  "scala_path_special c = (c \<in> set [CHR '';'', CHR ''&'', CHR ''|'', CHR 0x60, CHR ''$''])"

text \<open>\<^verbatim>\<open>[a-zA-Z0-9._\-/ ]\<close>.\<close>

definition safe_char :: "char \<Rightarrow> bool" where
  "safe_char c = (is_alnum c \<or> c \<in> set [CHR ''.'', CHR ''_'', CHR ''-'', CHR ''/'', CHR '' ''])"

text \<open>\<^verbatim>\<open>[a-zA-Z0-9._\-:]\<close>.\<close>

definition host_char :: "char \<Rightarrow> bool" where
  "host_char c = (is_alnum c \<or> c \<in> set [CHR ''.'', CHR ''_'', CHR ''-'', CHR '':''])"

text \<open>\<^verbatim>\<open>^[a-zA-Z_][a-zA-Z0-9_]*$\<close>: without the \<^verbatim>\<open>m\<close> flag, \<^verbatim>\<open>^\<close> and
  \<^verbatim>\<open>$\<close> match the two ends of the input only.\<close>

fun is_identifier :: "string \<Rightarrow> bool" where
  "is_identifier [] = False"
| "is_identifier (c # cs) =
     ((is_lower c \<or> is_upper c \<or> c = CHR ''_'') \<and> list_all (\<lambda>d. is_alnum d \<or> d = CHR ''_'') cs)"

subsection \<open>\<^verbatim>\<open>parseInt(v, 10)\<close>\<close>

text \<open>
  ECMAScript's \<^verbatim>\<open>parseInt\<close> with radix 10: the input is converted to a string,
  leading white space is dropped, one sign is read, and the longest prefix of
  decimal digits is the value; no digit there gives NaN (\<open>None\<close>). Whatever
  follows the digits is ignored.
\<close>

definition is_space :: "char \<Rightarrow> bool" where
  "is_space c = ((of_char c :: nat) \<in> set [9, 10, 11, 12, 13, 32, 160])"

definition digits_value :: "string \<Rightarrow> nat" where
  "digits_value Z = foldl (\<lambda>a c. 10 * a + (of_char c - 48)) 0 Z"

definition parseInt10 :: "jsval \<Rightarrow> int option" where
  "parseInt10 v =
     (let S = dropWhile is_space (ToString v);
          sign = (if S \<noteq> [] \<and> hd S = CHR ''-'' then - 1 else 1);
          S' = (if S \<noteq> [] \<and> (hd S = CHR ''+'' \<or> hd S = CHR ''-'') then tl S else S);
          Z = takeWhile is_digit S'
      in if Z = [] then None else Some (sign * int (digits_value Z)))"

section \<open>The validators\<close>

abbreviation dq :: string where
  "dq \<equiv> [CHR 0x22]"

definition lisp_special_msg :: string where
  "lisp_special_msg = ''Invalid characters in input: Lisp special characters not allowed''"

definition julia_special_msg :: string where
  "julia_special_msg = ''Invalid characters in input: Julia special characters not allowed''"

definition unsafe_msg :: string where
  "unsafe_msg = ''Invalid characters in input: only alphanumeric, dots, dashes, underscores, slashes, and spaces allowed''"

definition traversal_msg :: string where
  "traversal_msg = ''Path traversal not allowed''"

definition port_msg :: string where
  "port_msg = ''Invalid port number: must be between 1 and 65535''"

definition host_msg :: string where
  "host_msg = ''Invalid host format''"

definition path_chars_msg :: string where
  "path_chars_msg = ''Invalid characters in path''"

definition module_ident_msg :: string where
  "module_ident_msg = ''Invalid module name: must be a valid identifier (alphanumeric and underscores only)''"

definition module_traversal_msg :: string where
  "module_traversal_msg = ''Invalid module name: path traversal not allowed''"

definition module_not_a_function_msg :: string where
  "module_not_a_function_msg = ''module.includes is not a function''"

definition path_not_a_function_msg :: string where
  "path_not_a_function_msg = ''path.includes is not a function''"

subsection \<open>Coleslaw (\<^verbatim>\<open>part_003\<close>)\<close>

fun sanitizeLispString :: "jsval \<Rightarrow> jserror + string" where
  "sanitizeLispString (Str s) =
     (if list_ex lisp_special s then Inl (Error lisp_special_msg)
      else if \<not> (s \<noteq> [] \<and> list_all safe_char s) then Inl (Error unsafe_msg)
      else Inr s)"
| "sanitizeLispString v = Inr ''''"

definition coleslaw_validatePath :: "jsval \<Rightarrow> jserror + string" where
  "coleslaw_validatePath path =
     (if \<not> truthy path then Inr ''.''
      else case sanitizeLispString path of
             Inl e \<Rightarrow> Inl e
           | Inr sanitized \<Rightarrow>
               if str_includes sanitized ''..'' then Inl (Error traversal_msg) else Inr sanitized)"

text \<open>\<^verbatim>\<open>validatePort\<close> is the same function in \<^verbatim>\<open>part_003\<close> and \<^verbatim>\<open>part_004\<close>.\<close>

definition validatePort :: "jsval \<Rightarrow> jserror + int" where
  "validatePort port =
     (case parseInt10 port of
        None \<Rightarrow> Inl (Error port_msg)
      | Some p \<Rightarrow> if p < 1 \<or> p > 65535 then Inl (Error port_msg) else Inr p)"

subsection \<open>Franklin.jl (\<^verbatim>\<open>part_004\<close>)\<close>

fun sanitizeJuliaString :: "jsval \<Rightarrow> jserror + string" where
  "sanitizeJuliaString (Str s) =
     (if list_ex julia_special s then Inl (Error julia_special_msg)
      else if \<not> (s \<noteq> [] \<and> list_all safe_char s) then Inl (Error unsafe_msg)
      else Inr s)"
| "sanitizeJuliaString v = Inr ''''"

fun sanitizeHost :: "jsval \<Rightarrow> jserror + string" where
  "sanitizeHost (Str s) =
     (if \<not> (s \<noteq> [] \<and> list_all host_char s) then Inl (Error host_msg) else Inr s)"
| "sanitizeHost v = Inr ''''"

definition franklin_validatePath :: "jsval \<Rightarrow> jserror + string" where
  "franklin_validatePath path =
     (if \<not> truthy path then Inr ''.''
      else case sanitizeJuliaString path of
             Inl e \<Rightarrow> Inl e
           | Inr sanitized \<Rightarrow>
               if str_includes sanitized ''..'' then Inl (Error traversal_msg) else Inr sanitized)"

subsection \<open>ScalaTex (\<^verbatim>\<open>scalatex.js\<close>)\<close>

text \<open>
  \<^verbatim>\<open>module.includes\<close> and \<^verbatim>\<open>path.includes\<close> exist on strings only: on
  a boolean, a number or a plain object the call raises a TypeError. The result of
  \<^verbatim>\<open>validatePath\<close> is \<^verbatim>\<open>null\<close> (\<open>None\<close>) or the string itself.
\<close>

fun validateModuleName :: "jsval \<Rightarrow> jserror + string" where
  "validateModuleName module =
     (if \<not> truthy module then Inr ''docs''
      else if \<not> is_identifier (ToString module) then Inl (Error module_ident_msg)
      else case module of
             Str s \<Rightarrow>
               if str_includes s ''..'' \<or> str_includes s ''/'' \<or> str_includes s [CHR 0x5C]
               then Inl (Error module_traversal_msg) else Inr s
           | _ \<Rightarrow> Inl (TypeError module_not_a_function_msg))"

fun scalatex_validatePath :: "jsval \<Rightarrow> jserror + string option" where
  "scalatex_validatePath path =
     (if \<not> truthy path then Inr None
      else case path of
             Str s \<Rightarrow>
               if str_includes s ''..'' then Inl (Error traversal_msg)
               else if list_ex scala_path_special s then Inl (Error path_chars_msg)
               else Inr (Some s)
           | _ \<Rightarrow> Inl (TypeError path_not_a_function_msg))"

section \<open>The runtime: commands, processes and results\<close>

text \<open>
  \<^verbatim>\<open>new Deno.Command(exe, {args, cwd, ...})\<close> describes a process and
  \<^verbatim>\<open>await cmd.output()\<close> spawns it and waits for its exit. The operating
  system is a parameter: for each command it either refuses to spawn (the promise
  is rejected, as for a missing binary), or the process exits after some
  milliseconds with its captured output, or the process never exits.
  \<^verbatim>\<open>Deno.cwd()\<close> returns the current directory or throws.
\<close>

record command =
  exe :: string
  args :: "string list"
  cwd :: "string option"

record proc_output =
  out_stdout :: string
  out_stderr :: string
  out_code :: int

text \<open>\<^verbatim>\<open>output.success\<close>: Deno reports success exactly when the exit code is 0.\<close>

definition out_success :: "proc_output \<Rightarrow> bool" where
  "out_success out = (out_code out = 0)"

datatype proc_outcome = SpawnFails jserror | Exits nat proc_output | NeverExits

record env =
  proc :: "command \<Rightarrow> proc_outcome"
  deno_cwd :: "jserror + string"

text \<open>
  An awaited call returns, throws or stays pending for ever; with it comes the
  list of the commands that were spawned, in order.
\<close>

datatype 'a completion = Returns 'a | Throws jserror | Pends

type_synonym 'a async = "'a completion \<times> command list"

definition cmd_output :: "env \<Rightarrow> command \<Rightarrow> proc_output async" where
  "cmd_output rt c =
     (case proc rt c of
        SpawnFails e \<Rightarrow> (Throws e, [c])
      | Exits ms out \<Rightarrow> (Returns out, [c])
      | NeverExits \<Rightarrow> (Pends, [c]))"

text \<open>\<^verbatim>\<open>cwd || Deno.cwd()\<close>: \<^verbatim>\<open>null\<close> and the empty string are falsy.\<close>

definition cwd_or_current :: "env \<Rightarrow> string option \<Rightarrow> jserror + string" where
  "cwd_or_current rt dir =
     (case dir of
        None \<Rightarrow> deno_cwd rt
      | Some d \<Rightarrow> if d = [] then deno_cwd rt else Inr d)"

text \<open>The Result object; a field that the object literal leaves out is \<open>None\<close>.\<close>

record result =
  success :: bool
  stdout :: string
  stderr :: string
  code :: "int option"

definition of_output :: "proc_output \<Rightarrow> result" where
  "of_output out = \<lparr>success = out_success out, stdout = out_stdout out,
     stderr = out_stderr out, code = Some (out_code out)\<rparr>"

text \<open>The literal of the \<^verbatim>\<open>*_version\<close> tools of Coleslaw and Franklin.jl, which has
  no \<^verbatim>\<open>code\<close>.\<close>

definition of_output_without_code :: "proc_output \<Rightarrow> result" where
  "of_output_without_code out = \<lparr>success = out_success out, stdout = out_stdout out,
     stderr = out_stderr out, code = None\<rparr>"

text \<open>\<^verbatim>\<open>{ success: false, stdout: "", stderr: e.message, code: 1 }\<close>.\<close>

definition failure :: "jserror \<Rightarrow> result" where
  "failure e = \<lparr>success = False, stdout = [], stderr = message e, code = Some 1\<rparr>"

text \<open>\<^verbatim>\<open>try { ...; return await run(...) } catch (e) { return failure }\<close>.\<close>

definition catch_failure :: "result async \<Rightarrow> result async" where
  "catch_failure a = (case fst a of Throws e \<Rightarrow> (Returns (failure e), snd a) | _ \<Rightarrow> a)"

text \<open>The body shared by every runner: resolve the directory, spawn, decode.\<close>

definition run_in :: "env \<Rightarrow> string \<Rightarrow> string list \<Rightarrow> string option \<Rightarrow> result async" where
  "run_in rt binary arguments dir =
     (case cwd_or_current rt dir of
        Inl e \<Rightarrow> (Throws e, [])
      | Inr d \<Rightarrow>
          map_prod (map_completion of_output) id
            (cmd_output rt \<lparr>exe = binary, args = arguments, cwd = Some d\<rparr>))"

text \<open>
  A parameter object maps property names to values; a property it does not have
  reads as \<^verbatim>\<open>undefined\<close>. \<^verbatim>\<open>execute\<close> is called with a parameter object, or
  with none (\<^verbatim>\<open>execute()\<close>, \<^verbatim>\<open>execute(undefined)\<close>, \<^verbatim>\<open>execute(null)\<close>).
\<close>

type_synonym params = "string \<Rightarrow> jsval"

definition no_params :: params where
  "no_params = (\<lambda>k. Undefined)"

record tool =
  tool_name :: string
  properties :: "(string \<times> string) list"
  required :: "string list"
  execute :: "env \<Rightarrow> params option \<Rightarrow> result async"

definition destructure_msg :: string where
  "destructure_msg = ''Cannot destructure property of undefined''"

text \<open>
  \<^verbatim>\<open>execute: async ({ path, ... }) => { try ... }\<close>: the properties are taken from
  the argument before the body, and so before its \<^verbatim>\<open>try\<close> block, is entered;
  without an object this raises a TypeError (whose message names the first
  property).
\<close>

definition with_params ::
  "(env \<Rightarrow> params \<Rightarrow> result async) \<Rightarrow> env \<Rightarrow> params option \<Rightarrow> result async" where
  "with_params body rt arg =
     (case arg of
        None \<Rightarrow> (Throws (TypeError destructure_msg), [])
      | Some p \<Rightarrow> body rt p)"

text \<open>\<^verbatim>\<open>execute: async () => ...\<close> reads no argument.\<close>

definition without_params ::
  "(env \<Rightarrow> params \<Rightarrow> result async) \<Rightarrow> env \<Rightarrow> params option \<Rightarrow> result async" where
  "without_params body rt arg = body rt no_params"

section \<open>The Coleslaw adapter\<close>

definition sblPath :: string where
  "sblPath = ''sbcl''"

definition coleslaw_runCommand :: "env \<Rightarrow> string list \<Rightarrow> string option \<Rightarrow> result async" where
  "coleslaw_runCommand rt arguments dir = run_in rt sblPath (''--script'' # arguments) dir"

definition runColeslaw :: "env \<Rightarrow> string \<Rightarrow> string option \<Rightarrow> result async" where
  "runColeslaw rt lispExpr dir =
     run_in rt sblPath [''--eval'', ''(ql:quickload :coleslaw)'', ''--eval'', lispExpr, ''--quit''] dir"

text \<open>The module variable \<^verbatim>\<open>connected\<close> is the whole lifecycle state; \<^verbatim>\<open>connect\<close>
  returns its value together with the new state.\<close>

definition coleslaw_connect :: "env \<Rightarrow> bool \<Rightarrow> bool async \<times> bool" where
  "coleslaw_connect rt connected =
     (case cmd_output rt \<lparr>exe = sblPath, args = [''--version''], cwd = None\<rparr> of
        (Returns out, tr) \<Rightarrow> ((Returns (out_success out), tr), out_success out)
      | (Throws e, tr) \<Rightarrow> ((Returns False, tr), False)
      | (Pends, tr) \<Rightarrow> ((Pends, tr), connected))"

definition disconnect :: "bool \<Rightarrow> bool" where
  "disconnect connected = False"

definition isConnected :: "bool \<Rightarrow> bool" where
  "isConnected connected = connected"

definition coleslaw_init :: "env \<Rightarrow> params \<Rightarrow> result async" where
  "coleslaw_init rt p =
     (case coleslaw_validatePath (p ''path'') of
        Inl e \<Rightarrow> (Returns (failure e), [])
      | Inr safePath \<Rightarrow>
          catch_failure (runColeslaw rt (''(coleslaw:setup '' @ dq @ safePath @ dq @ '')'') (Some safePath)))"

definition coleslaw_build :: "env \<Rightarrow> params \<Rightarrow> result async" where
  "coleslaw_build rt p =
     (case coleslaw_validatePath (p ''path'') of
        Inl e \<Rightarrow> (Returns (failure e), [])
      | Inr safePath \<Rightarrow>
          catch_failure (runColeslaw rt (''(coleslaw:main '' @ dq @ safePath @ dq @ '')'') (Some safePath)))"

definition coleslaw_preview :: "env \<Rightarrow> params \<Rightarrow> result async" where
  "coleslaw_preview rt p =
     (case coleslaw_validatePath (p ''path'') of
        Inl e \<Rightarrow> (Returns (failure e), [])
      | Inr safePath \<Rightarrow>
          (case validatePort (if truthy (p ''port'') then p ''port'' else Num 8080) of
             Inl e \<Rightarrow> (Returns (failure e), [])
           | Inr safePort \<Rightarrow>
               catch_failure (runColeslaw rt (''(coleslaw:preview :port '' @ Number_toString safePort @ '')'')
                 (Some safePath))))"

definition coleslaw_new_post :: "env \<Rightarrow> params \<Rightarrow> result async" where
  "coleslaw_new_post rt p =
     (case coleslaw_validatePath (p ''path'') of
        Inl e \<Rightarrow> (Returns (failure e), [])
      | Inr safePath \<Rightarrow>
          (case sanitizeLispString (p ''title'') of
             Inl e \<Rightarrow> (Returns (failure e), [])
           | Inr safeTitle \<Rightarrow>
               catch_failure (runColeslaw rt (''(coleslaw:new-post '' @ dq @ safeTitle @ dq @ '')'')
                 (Some safePath))))"

definition coleslaw_version :: "env \<Rightarrow> params \<Rightarrow> result async" where
  "coleslaw_version rt p =
     map_prod (map_completion of_output_without_code) id
       (cmd_output rt \<lparr>exe = sblPath, args = [''--version''], cwd = None\<rparr>)"

definition coleslaw_tools :: "tool list" where
  "coleslaw_tools =
     [\<lparr>tool_name = ''coleslaw_init'', properties = [(''path'', ''string'')], required = [],
        execute = with_params coleslaw_init\<rparr>,
      \<lparr>tool_name = ''coleslaw_build'', properties = [(''path'', ''string'')], required = [],
        execute = with_params coleslaw_build\<rparr>,
      \<lparr>tool_name = ''coleslaw_preview'',
        properties = [(''path'', ''string''), (''port'', ''number'')], required = [],
        execute = with_params coleslaw_preview\<rparr>,
      \<lparr>tool_name = ''coleslaw_new_post'',
        properties = [(''path'', ''string''), (''title'', ''string'')], required = [''title''],
        execute = with_params coleslaw_new_post\<rparr>,
      \<lparr>tool_name = ''coleslaw_version'', properties = [], required = [],
        execute = without_params coleslaw_version\<rparr>]"

section \<open>The Franklin.jl adapter\<close>

definition juliaPath :: string where
  "juliaPath = ''julia''"

definition runJulia :: "env \<Rightarrow> string \<Rightarrow> string option \<Rightarrow> result async" where
  "runJulia rt src dir = run_in rt juliaPath [''-e'', src] dir"

definition franklin_connect :: "env \<Rightarrow> bool \<Rightarrow> bool async \<times> bool" where
  "franklin_connect rt connected =
     (case cmd_output rt \<lparr>exe = juliaPath, args = [''--version''], cwd = None\<rparr> of
        (Returns out, tr) \<Rightarrow> ((Returns (out_success out), tr), out_success out)
      | (Throws e, tr) \<Rightarrow> ((Returns False, tr), False)
      | (Pends, tr) \<Rightarrow> ((Pends, tr), connected))"

text \<open>\<^verbatim>\<open>args.join(", ")\<close>.\<close>

fun join_comma :: "string list \<Rightarrow> string" where
  "join_comma [] = []"
| "join_comma [x] = x"
| "join_comma (x # y # ys) = x @ '', '' @ join_comma (y # ys)"

definition franklin_newsite :: "env \<Rightarrow> params \<Rightarrow> result async" where
  "franklin_newsite rt p =
     (case franklin_validatePath (p ''path'') of
        Inl e \<Rightarrow> (Returns (failure e), [])
      | Inr safePath \<Rightarrow>
          (case (if truthy (p ''template'')
                 then (case sanitizeJuliaString (p ''template'') of
                         Inl e \<Rightarrow> Inl e
                       | Inr t \<Rightarrow> Inr ('', template='' @ dq @ t @ dq))
                 else Inr []) of
             Inl e \<Rightarrow> (Returns (failure e), [])
           | Inr tmpl \<Rightarrow>
               catch_failure (runJulia rt
                 (''using Franklin; newsite('' @ dq @ safePath @ dq @ tmpl @ '')'') None)))"

definition franklin_serve :: "env \<Rightarrow> params \<Rightarrow> result async" where
  "franklin_serve rt p =
     (case franklin_validatePath (p ''path'') of
        Inl e \<Rightarrow> (Returns (failure e), [])
      | Inr safePath \<Rightarrow>
          (case (if truthy (p ''port'')
                 then (case validatePort (p ''port'') of
                         Inl e \<Rightarrow> Inl e
                       | Inr n \<Rightarrow> Inr [''port='' @ Number_toString n])
                 else Inr []) of
             Inl e \<Rightarrow> (Returns (failure e), [])
           | Inr args1 \<Rightarrow>
               (case (if truthy (p ''host'')
                      then (case sanitizeHost (p ''host'') of
                              Inl e \<Rightarrow> Inl e
                            | Inr h \<Rightarrow> Inr (args1 @ [''host='' @ dq @ h @ dq]))
                      else Inr args1) of
                  Inl e \<Rightarrow> (Returns (failure e), [])
                | Inr args2 \<Rightarrow>
                    catch_failure (runJulia rt
                      (''using Franklin; serve('' @ join_comma args2 @ '')'') (Some safePath)))))"

definition franklin_optimize :: "env \<Rightarrow> params \<Rightarrow> result async" where
  "franklin_optimize rt p =
     (case franklin_validatePath (p ''path'') of
        Inl e \<Rightarrow> (Returns (failure e), [])
      | Inr safePath \<Rightarrow>
          (let args1 = (if p ''minify'' \<noteq> Bool False then [''minify=true''] else []);
               args2 = (if p ''prerender'' \<noteq> Bool False then args1 @ [''prerender=true''] else args1)
           in catch_failure (runJulia rt
                (''using Franklin; optimize('' @ join_comma args2 @ '')'') (Some safePath))))"

definition franklin_publish :: "env \<Rightarrow> params \<Rightarrow> result async" where
  "franklin_publish rt p =
     (case franklin_validatePath (p ''path'') of
        Inl e \<Rightarrow> (Returns (failure e), [])
      | Inr safePath \<Rightarrow>
          catch_failure (runJulia rt ''using Franklin; publish()'' (Some safePath)))"

definition franklin_version :: "env \<Rightarrow> params \<Rightarrow> result async" where
  "franklin_version rt p =
     map_prod (map_completion of_output_without_code) id
       (cmd_output rt \<lparr>exe = juliaPath, args = [''--version''], cwd = None\<rparr>)"

definition franklin_tools :: "tool list" where
  "franklin_tools =
     [\<lparr>tool_name = ''franklin_newsite'',
        properties = [(''path'', ''string''), (''template'', ''string'')], required = [],
        execute = with_params franklin_newsite\<rparr>,
      \<lparr>tool_name = ''franklin_serve'',
        properties = [(''path'', ''string''), (''port'', ''number''), (''host'', ''string'')],
        required = [], execute = with_params franklin_serve\<rparr>,
      \<lparr>tool_name = ''franklin_optimize'',
        properties = [(''path'', ''string''), (''minify'', ''boolean''), (''prerender'', ''boolean'')],
        required = [], execute = with_params franklin_optimize\<rparr>,
      \<lparr>tool_name = ''franklin_publish'', properties = [(''path'', ''string'')], required = [],
        execute = with_params franklin_publish\<rparr>,
      \<lparr>tool_name = ''franklin_version'', properties = [], required = [],
        execute = without_params franklin_version\<rparr>]"

section \<open>The ScalaTex adapter\<close>

definition millPath :: string where
  "millPath = ''mill''"

definition scalatex_runCommand :: "env \<Rightarrow> string list \<Rightarrow> string option \<Rightarrow> result async" where
  "scalatex_runCommand rt arguments dir = run_in rt millPath arguments dir"

definition runSbt :: "env \<Rightarrow> string list \<Rightarrow> string option \<Rightarrow> result async" where
  "runSbt rt arguments dir = run_in rt ''sbt'' arguments dir"

text \<open>\<^verbatim>\<open>connected\<close> is assigned from Mill's result before sbt is tried; an exception
  anywhere in the \<^verbatim>\<open>try\<close> block resets it.\<close>

definition scalatex_connect :: "env \<Rightarrow> bool \<Rightarrow> bool async \<times> bool" where
  "scalatex_connect rt connected =
     (case scalatex_runCommand rt [''--version''] None of
        (Throws e, tr) \<Rightarrow> ((Returns False, tr), False)
      | (Pends, tr) \<Rightarrow> ((Pends, tr), connected)
      | (Returns r, tr) \<Rightarrow>
          if success r then ((Returns True, tr), True)
          else (case runSbt rt [''--version''] None of
                  (Throws e, tr') \<Rightarrow> ((Returns False, tr @ tr'), False)
                | (Pends, tr') \<Rightarrow> ((Pends, tr @ tr'), False)
                | (Returns r', tr') \<Rightarrow> ((Returns (success r'), tr @ tr'), success r')))"

text \<open>The three tools that take a module differ in their argument list only.\<close>

definition scalatex_module_tool ::
  "(string \<Rightarrow> string list) \<Rightarrow> env \<Rightarrow> params \<Rightarrow> result async" where
  "scalatex_module_tool arguments rt p =
     (case scalatex_validatePath (p ''path'') of
        Inl e \<Rightarrow> (Returns (failure e), [])
      | Inr safePath \<Rightarrow>
          (case validateModuleName (p ''module'') of
             Inl e \<Rightarrow> (Returns (failure e), [])
           | Inr safeMod \<Rightarrow> catch_failure (scalatex_runCommand rt (arguments safeMod) safePath)))"

definition scalatex_compile :: "env \<Rightarrow> params \<Rightarrow> result async" where
  "scalatex_compile = scalatex_module_tool (\<lambda>safeMod. [safeMod @ ''.compile''])"

definition scalatex_run :: "env \<Rightarrow> params \<Rightarrow> result async" where
  "scalatex_run = scalatex_module_tool (\<lambda>safeMod. [safeMod @ ''.run''])"

definition scalatex_watch :: "env \<Rightarrow> params \<Rightarrow> result async" where
  "scalatex_watch = scalatex_module_tool (\<lambda>safeMod. [''--watch'', safeMod @ ''.compile''])"

definition scalatex_clean :: "env \<Rightarrow> params \<Rightarrow> result async" where
  "scalatex_clean rt p =
     (case scalatex_validatePath (p ''path'') of
        Inl e \<Rightarrow> (Returns (failure e), [])
      | Inr safePath \<Rightarrow> catch_failure (scalatex_runCommand rt [''clean''] safePath))"

definition scalatex_version :: "env \<Rightarrow> params \<Rightarrow> result async" where
  "scalatex_version rt p = scalatex_runCommand rt [''--version''] None"

definition scalatex_tools :: "tool list" where
  "scalatex_tools =
     [\<lparr>tool_name = ''scalatex_compile'',
        properties = [(''path'', ''string''), (''module'', ''string'')], required = [],
        execute = with_params scalatex_compile\<rparr>,
      \<lparr>tool_name = ''scalatex_run'',
        properties = [(''path'', ''string''), (''module'', ''string'')], required = [],
        execute = with_params scalatex_run\<rparr>,
      \<lparr>tool_name = ''scalatex_watch'',
        properties = [(''path'', ''string''), (''module'', ''string'')], required = [],
        execute = with_params scalatex_watch\<rparr>,
      \<lparr>tool_name = ''scalatex_clean'', properties = [(''path'', ''string'')], required = [],
        execute = with_params scalatex_clean\<rparr>,
      \<lparr>tool_name = ''scalatex_version'', properties = [], required = [],
        execute = without_params scalatex_version\<rparr>]"

text \<open>The tools whose \<^verbatim>\<open>execute\<close> wraps its body in \<^verbatim>\<open>try\<close>/\<^verbatim>\<open>catch\<close>: all but
  the last of each adapter.\<close>

definition guarded_tools :: "tool list" where
  "guarded_tools = butlast coleslaw_tools @ butlast franklin_tools @ butlast scalatex_tools"

definition all_tools :: "tool list" where
  "all_tools = coleslaw_tools @ franklin_tools @ scalatex_tools"

section \<open>Concrete runtimes and parameter objects\<close>

text \<open>No binary can be spawned (none is installed).\<close>

definition rt_missing :: env where
  "rt_missing = \<lparr>proc = (\<lambda>c. SpawnFails (Error ''NotFound: Failed to spawn: entity not found'')),
     deno_cwd = Inr ''/srv/site''\<rparr>"

text \<open>Every binary is present and exits with status 0 after 40 ms.\<close>

definition ok_output :: proc_output where
  "ok_output = \<lparr>out_stdout = ''ok'', out_stderr = [], out_code = 0\<rparr>"

definition rt_present :: env where
  "rt_present = \<lparr>proc = (\<lambda>c. Exits 40 ok_output), deno_cwd = Inr ''/srv/site''\<rparr>"

text \<open>Every process exits with status 1 and writes nothing.\<close>

definition silent_output :: proc_output where
  "silent_output = \<lparr>out_stdout = [], out_stderr = [], out_code = 1\<rparr>"

definition rt_silent_failure :: env where
  "rt_silent_failure = \<lparr>proc = (\<lambda>c. Exits 40 silent_output), deno_cwd = Inr ''/srv/site''\<rparr>"

text \<open>Every process takes 200 seconds, and one that never exits.\<close>

definition rt_slow :: env where
  "rt_slow = \<lparr>proc = (\<lambda>c. Exits 200000 ok_output), deno_cwd = Inr ''/srv/site''\<rparr>"

definition rt_hanging :: env where
  "rt_hanging = \<lparr>proc = (\<lambda>c. NeverExits), deno_cwd = Inr ''/srv/site''\<rparr>"

text \<open>\<^verbatim>\<open>let connected = false;\<close> at the top of each adapter module.\<close>

definition initial_connected :: bool where
  "initial_connected = False"

text \<open>
  What an operation with \<^verbatim>\<open>try\<close>/\<^verbatim>\<open>catch\<close> can come to. Either nothing was
  spawned and the Result is the failure record of an error (one with a message, or
  the one \<^verbatim>\<open>Deno.cwd()\<close> threw); or one command was spawned and the Result
  follows what the process did.
\<close>

abbreviation guarded_outcome :: "env \<Rightarrow> result completion \<Rightarrow> command list \<Rightarrow> bool" where
  "guarded_outcome rt x tr \<equiv>
     (tr = [] \<and> (\<exists>e. x = Returns (failure e) \<and> (message e \<noteq> [] \<or> deno_cwd rt = Inl e)))
     \<or> (\<exists>c. tr = [c] \<and>
           (case proc rt c of
              SpawnFails e \<Rightarrow> x = Returns (failure e)
            | Exits ms out \<Rightarrow> x = Returns (of_output out)
            | NeverExits \<Rightarrow> x = Pends))"

section \<open>Strings and validator errors\<close>

lemma str_includes_nil: "str_includes s []"
  by (cases s) simp_all

lemma str_includes_prefix: "str_includes (sub @ post) sub"
  by (cases sub) (simp_all add: str_includes_nil)

lemma str_includes_append: "str_includes (pre @ sub @ post) sub"
  by (induction pre) (simp_all add: str_includes_prefix)

lemma str_includes_split: "str_includes s sub \<Longrightarrow> \<exists>pre post. s = pre @ sub @ post"
proof (induction s)
  case Nil
  then show ?case by simp
next
  case (Cons c cs)
  show ?case
  proof (cases "take (length sub) (c # cs) = sub")
    case True
    then have "c # cs = [] @ sub @ drop (length sub) (c # cs)"
      by (metis append_Nil append_take_drop_id)
    then show ?thesis by blast
  next
    case False
    with Cons.prems have "str_includes cs sub" by simp
    then obtain pre post where "cs = pre @ sub @ post" using Cons.IH by blast
    then have "c # cs = (c # pre) @ sub @ post" by simp
    then show ?thesis by blast
  qed
qed

lemma message_nonempty_consts:
  "lisp_special_msg \<noteq> []" "julia_special_msg \<noteq> []" "unsafe_msg \<noteq> []" "traversal_msg \<noteq> []"
  "port_msg \<noteq> []" "host_msg \<noteq> []" "path_chars_msg \<noteq> []" "module_ident_msg \<noteq> []"
  "module_traversal_msg \<noteq> []" "module_not_a_function_msg \<noteq> []"
  "path_not_a_function_msg \<noteq> []"
  by (simp_all add: lisp_special_msg_def julia_special_msg_def unsafe_msg_def traversal_msg_def
      port_msg_def host_msg_def path_chars_msg_def module_ident_msg_def module_traversal_msg_def
      module_not_a_function_msg_def path_not_a_function_msg_def)

lemma sanitizeLispString_message: "sanitizeLispString v = Inl e \<Longrightarrow> message e \<noteq> []"
  by (cases v) (auto simp: message_nonempty_consts split: if_splits)

lemma sanitizeJuliaString_message: "sanitizeJuliaString v = Inl e \<Longrightarrow> message e \<noteq> []"
  by (cases v) (auto simp: message_nonempty_consts split: if_splits)

lemma sanitizeHost_message: "sanitizeHost v = Inl e \<Longrightarrow> message e \<noteq> []"
  by (cases v) (auto simp: message_nonempty_consts split: if_splits)

lemma coleslaw_validatePath_message: "coleslaw_validatePath v = Inl e \<Longrightarrow> message e \<noteq> []"
  by (auto simp: coleslaw_validatePath_def message_nonempty_consts
      split: if_splits sum.splits dest: sanitizeLispString_message)

lemma franklin_validatePath_message: "franklin_validatePath v = Inl e \<Longrightarrow> message e \<noteq> []"
  by (auto simp: franklin_validatePath_def message_nonempty_consts
      split: if_splits sum.splits dest: sanitizeJuliaString_message)

lemma validatePort_message: "validatePort v = Inl e \<Longrightarrow> message e \<noteq> []"
  by (auto simp: validatePort_def message_nonempty_consts split: option.splits if_splits)

lemma scalatex_validatePath_message: "scalatex_validatePath v = Inl e \<Longrightarrow> message e \<noteq> []"
  by (cases v) (auto simp: message_nonempty_consts split: if_splits)

lemma validateModuleName_message: "validateModuleName v = Inl e \<Longrightarrow> message e \<noteq> []"
  by (cases v) (auto simp: message_nonempty_consts split: if_splits)

section \<open>Path traversal\<close>

text \<open>
  Claim C4. Every string that contains \<^verbatim>\<open>..\<close> is rejected by \<^verbatim>\<open>validatePath\<close>
  in each of the three adapters, whatever else it contains: Coleslaw's and
  Franklin.jl's fail in the sanitizer or at the traversal check, ScalaTex's at the
  traversal check, which comes first there.
\<close>

theorem validatePath_rejects_traversal:
  assumes "s = pre @ ''..'' @ post"
  shows "isl (coleslaw_validatePath (Str s)) \<and> isl (franklin_validatePath (Str s))
    \<and> scalatex_validatePath (Str s) = Inl (Error traversal_msg)"
proof -
  have inc: "str_includes s ''..''"
    unfolding assms by (rule str_includes_append)
  have ne: "s \<noteq> []"
    using assms by simp
  have "isl (coleslaw_validatePath (Str s))"
    using inc ne by (simp add: coleslaw_validatePath_def)
  moreover have "isl (franklin_validatePath (Str s))"
    using inc ne by (simp add: franklin_validatePath_def)
  moreover have "scalatex_validatePath (Str s) = Inl (Error traversal_msg)"
    using inc ne by simp
  ultimately show ?thesis by simp
qed

theorem validatePath_rejects_traversal_witness:
  "isl (coleslaw_validatePath (Str ''../../etc'')) \<and> isl (franklin_validatePath (Str ''../../etc''))
    \<and> scalatex_validatePath (Str ''../../etc'') = Inl (Error traversal_msg)"
  using validatePath_rejects_traversal [of "''../../etc''" "[]" "''/../etc''"] by simp

section \<open>Reading a port\<close>



lemma digits10_small: "n < 10 \<Longrightarrow> digits10 n = [digit_char n]"
  by (subst digits10.simps) simp

lemma digits10_large: "\<not> n < 10 \<Longrightarrow> digits10 n = digits10 (n div 10) @ [digit_char (n mod 10)]"
  by (subst digits10.simps) simp


























lemma parseInt10_not_text:
  "parseInt10 Undefined = None" "parseInt10 Null = None" "parseInt10 (Bool b) = None"
  "parseInt10 Obj = None"
  by (simp_all add: parseInt10_def Let_def is_space_def is_digit_def)

lemmas show_int_eval = show_int_def Number_toString_def Let_def digits10_small digits10_large digit_char_def




section \<open>What an operation with a \<^verbatim>\<open>try\<close> block returns\<close>

lemma run_in_unfold:
  "run_in rt b a dir =
     (case cwd_or_current rt dir of
        Inl e \<Rightarrow> (Throws e, [])
      | Inr d \<Rightarrow>
          (case proc rt \<lparr>exe = b, args = a, cwd = Some d\<rparr> of
             SpawnFails e \<Rightarrow> (Throws e, [\<lparr>exe = b, args = a, cwd = Some d\<rparr>])
           | Exits ms out \<Rightarrow> (Returns (of_output out), [\<lparr>exe = b, args = a, cwd = Some d\<rparr>])
           | NeverExits \<Rightarrow> (Pends, [\<lparr>exe = b, args = a, cwd = Some d\<rparr>])))"
  by (simp add: run_in_def cmd_output_def split: sum.splits proc_outcome.splits)

lemma cwd_or_current_error: "cwd_or_current rt dir = Inl e \<Longrightarrow> deno_cwd rt = Inl e"
  by (auto simp: cwd_or_current_def split: option.splits if_splits)

lemma guarded_run:
  assumes "catch_failure (run_in rt b a dir) = (x, tr)"
  shows "guarded_outcome rt x tr"
proof (cases "cwd_or_current rt dir")
  case (Inl e)
  with assms have "x = Returns (failure e)" "tr = []"
    by (simp_all add: run_in_unfold catch_failure_def)
  with cwd_or_current_error [OF Inl] show ?thesis by blast
next
  case (Inr d)
  let ?c = "\<lparr>exe = b, args = a, cwd = Some d\<rparr>"
  from assms Inr have "tr = [?c] \<and>
      (case proc rt ?c of
         SpawnFails e \<Rightarrow> x = Returns (failure e)
       | Exits ms out \<Rightarrow> x = Returns (of_output out)
       | NeverExits \<Rightarrow> x = Pends)"
    by (auto simp: run_in_unfold catch_failure_def split: proc_outcome.splits)
  then show ?thesis by blast
qed

lemma rejected: "message e \<noteq> [] \<Longrightarrow> guarded_outcome rt (Returns (failure e)) []"
  by blast

lemma coleslaw_init_outcome: "coleslaw_init rt p = (x, tr) \<Longrightarrow> guarded_outcome rt x tr"
  unfolding coleslaw_init_def runColeslaw_def
  by (cases "coleslaw_validatePath (p ''path'')")
    (auto dest!: coleslaw_validatePath_message guarded_run)

lemma coleslaw_build_outcome: "coleslaw_build rt p = (x, tr) \<Longrightarrow> guarded_outcome rt x tr"
  unfolding coleslaw_build_def runColeslaw_def
  by (cases "coleslaw_validatePath (p ''path'')")
    (auto dest!: coleslaw_validatePath_message guarded_run)

lemma coleslaw_preview_outcome: "coleslaw_preview rt p = (x, tr) \<Longrightarrow> guarded_outcome rt x tr"
  unfolding coleslaw_preview_def runColeslaw_def
  by (cases "coleslaw_validatePath (p ''path'')";
      cases "validatePort (if truthy (p ''port'') then p ''port'' else Num 8080)")
    (auto dest!: coleslaw_validatePath_message validatePort_message guarded_run)

lemma coleslaw_new_post_outcome: "coleslaw_new_post rt p = (x, tr) \<Longrightarrow> guarded_outcome rt x tr"
  unfolding coleslaw_new_post_def runColeslaw_def
  by (cases "coleslaw_validatePath (p ''path'')"; cases "sanitizeLispString (p ''title'')")
    (auto dest!: coleslaw_validatePath_message sanitizeLispString_message guarded_run)

lemma franklin_newsite_outcome: "franklin_newsite rt p = (x, tr) \<Longrightarrow> guarded_outcome rt x tr"
  unfolding franklin_newsite_def runJulia_def
  by (cases "franklin_validatePath (p ''path'')"; cases "sanitizeJuliaString (p ''template'')";
      cases "truthy (p ''template'')")
    (auto dest!: franklin_validatePath_message sanitizeJuliaString_message guarded_run)

lemma franklin_serve_outcome: "franklin_serve rt p = (x, tr) \<Longrightarrow> guarded_outcome rt x tr"
  unfolding franklin_serve_def runJulia_def
  by (cases "franklin_validatePath (p ''path'')"; cases "validatePort (p ''port'')";
      cases "sanitizeHost (p ''host'')"; cases "truthy (p ''port'')"; cases "truthy (p ''host'')")
    (auto dest!: franklin_validatePath_message validatePort_message sanitizeHost_message guarded_run)

lemma franklin_optimize_outcome: "franklin_optimize rt p = (x, tr) \<Longrightarrow> guarded_outcome rt x tr"
  unfolding franklin_optimize_def runJulia_def Let_def
  by (cases "franklin_validatePath (p ''path'')")
    (auto dest!: franklin_validatePath_message guarded_run)

lemma franklin_publish_outcome: "franklin_publish rt p = (x, tr) \<Longrightarrow> guarded_outcome rt x tr"
  unfolding franklin_publish_def runJulia_def
  by (cases "franklin_validatePath (p ''path'')")
    (auto dest!: franklin_validatePath_message guarded_run)

lemma scalatex_module_tool_outcome:
  "scalatex_module_tool f rt p = (x, tr) \<Longrightarrow> guarded_outcome rt x tr"
  unfolding scalatex_module_tool_def scalatex_runCommand_def
  by (cases "scalatex_validatePath (p ''path'')"; cases "validateModuleName (p ''module'')")
    (auto simp del: scalatex_validatePath.simps validateModuleName.simps
      dest!: scalatex_validatePath_message validateModuleName_message guarded_run)

lemma scalatex_clean_outcome: "scalatex_clean rt p = (x, tr) \<Longrightarrow> guarded_outcome rt x tr"
  unfolding scalatex_clean_def scalatex_runCommand_def
  by (cases "scalatex_validatePath (p ''path'')")
    (auto simp del: scalatex_validatePath.simps
      dest!: scalatex_validatePath_message guarded_run)

lemma guarded_tools_unfold:
  "t \<in> set guarded_tools \<Longrightarrow>
     execute t \<in> with_params ` {coleslaw_init, coleslaw_build, coleslaw_preview, coleslaw_new_post,
       franklin_newsite, franklin_serve, franklin_optimize, franklin_publish,
       scalatex_compile, scalatex_run, scalatex_watch, scalatex_clean}"
  by (auto simp: guarded_tools_def coleslaw_tools_def franklin_tools_def scalatex_tools_def)

lemma scalatex_compile_outcome: "scalatex_compile rt p = (x, tr) \<Longrightarrow> guarded_outcome rt x tr"
  unfolding scalatex_compile_def by (rule scalatex_module_tool_outcome)

lemma scalatex_run_outcome: "scalatex_run rt p = (x, tr) \<Longrightarrow> guarded_outcome rt x tr"
  unfolding scalatex_run_def by (rule scalatex_module_tool_outcome)

lemma scalatex_watch_outcome: "scalatex_watch rt p = (x, tr) \<Longrightarrow> guarded_outcome rt x tr"
  unfolding scalatex_watch_def by (rule scalatex_module_tool_outcome)

lemma guarded_tool_outcome:
  assumes "t \<in> set guarded_tools" and "execute t rt (Some p) = (x, tr)"
  shows "guarded_outcome rt x tr"
proof -
  have via: "guarded_outcome rt x tr"
    if "execute t = with_params f" and "\<And>x tr. f rt p = (x, tr) \<Longrightarrow> guarded_outcome rt x tr" for f
    using that assms(2) by (simp add: with_params_def)
  from guarded_tools_unfold [OF assms(1)]
  consider "execute t = with_params coleslaw_init" | "execute t = with_params coleslaw_build"
    | "execute t = with_params coleslaw_preview" | "execute t = with_params coleslaw_new_post"
    | "execute t = with_params franklin_newsite" | "execute t = with_params franklin_serve"
    | "execute t = with_params franklin_optimize" | "execute t = with_params franklin_publish"
    | "execute t = with_params scalatex_compile" | "execute t = with_params scalatex_run"
    | "execute t = with_params scalatex_watch" | "execute t = with_params scalatex_clean"
    by auto
  then show ?thesis
  proof cases
    case 1 then show ?thesis by (rule via) (rule coleslaw_init_outcome)
  next
    case 2 then show ?thesis by (rule via) (rule coleslaw_build_outcome)
  next
    case 3 then show ?thesis by (rule via) (rule coleslaw_preview_outcome)
  next
    case 4 then show ?thesis by (rule via) (rule coleslaw_new_post_outcome)
  next
    case 5 then show ?thesis by (rule via) (rule franklin_newsite_outcome)
  next
    case 6 then show ?thesis by (rule via) (rule franklin_serve_outcome)
  next
    case 7 then show ?thesis by (rule via) (rule franklin_optimize_outcome)
  next
    case 8 then show ?thesis by (rule via) (rule franklin_publish_outcome)
  next
    case 9 then show ?thesis by (rule via) (rule scalatex_compile_outcome)
  next
    case 10 then show ?thesis by (rule via) (rule scalatex_run_outcome)
  next
    case 11 then show ?thesis by (rule via) (rule scalatex_watch_outcome)
  next
    case 12 then show ?thesis by (rule via) (rule scalatex_clean_outcome)
  qed
qed

section \<open>Exceptions and the shape of a Result\<close>

lemmas runtime_eval = rt_missing_def rt_present_def rt_silent_failure_def rt_slow_def
  rt_hanging_def ok_output_def silent_output_def no_params_def

lemmas runner_eval = run_in_def cmd_output_def cwd_or_current_def catch_failure_def
  of_output_def of_output_without_code_def out_success_def failure_def
  with_params_def without_params_def
  runColeslaw_def coleslaw_runCommand_def runJulia_def scalatex_runCommand_def runSbt_def
  sblPath_def juliaPath_def millPath_def


text \<open>Called with a parameter object, they never throw.\<close>

lemma guarded_tools_never_throw:
  assumes "t \<in> set guarded_tools"
  shows "fst (execute t rt (Some p)) \<noteq> Throws e"
proof -
  obtain x tr where run: "execute t rt (Some p) = (x, tr)"
    by (cases "execute t rt (Some p)")
  from guarded_tool_outcome [OF assms run] consider
    (rejected) "\<exists>e'. x = Returns (failure e')"
    | (spawned) c where
        "case proc rt c of SpawnFails e' \<Rightarrow> x = Returns (failure e')
         | Exits ms out \<Rightarrow> x = Returns (of_output out) | NeverExits \<Rightarrow> x = Pends"
    by auto
  then have "x \<noteq> Throws e"
  proof cases
    case rejected
    then show ?thesis by auto
  next
    case spawned
    then show ?thesis by (cases "proc rt c") auto
  qed
  with run show ?thesis by simp
qed

text \<open>
  Claim C1. The claim asks that no operation lets an exception reach its caller.
  The three \<^verbatim>\<open>*_version\<close> operations have no \<^verbatim>\<open>try\<close> block: with no binary
  installed, the rejection of \<^verbatim>\<open>cmd.output()\<close> leaves \<^verbatim>\<open>execute\<close> as an exception
  instead of a Result with \<^verbatim>\<open>success: false\<close>.
\<close>

theorem version_tools_propagate_spawn_error:
  "coleslaw_version rt_missing no_params =
     (Throws (Error ''NotFound: Failed to spawn: entity not found''),
      [\<lparr>exe = ''sbcl'', args = [''--version''], cwd = None\<rparr>])
   \<and> franklin_version rt_missing no_params =
     (Throws (Error ''NotFound: Failed to spawn: entity not found''),
      [\<lparr>exe = ''julia'', args = [''--version''], cwd = None\<rparr>])
   \<and> scalatex_version rt_missing no_params =
     (Throws (Error ''NotFound: Failed to spawn: entity not found''),
      [\<lparr>exe = ''mill'', args = [''--version''], cwd = Some ''/srv/site''\<rparr>])"
  by (simp add: coleslaw_version_def franklin_version_def scalatex_version_def
      runtime_eval runner_eval)


text \<open>The \<^verbatim>\<open>*_version\<close> operations of Coleslaw and Franklin.jl build their Result
  without the field \<^verbatim>\<open>code\<close>.\<close>

lemma version_result_has_no_code:
  "coleslaw_version rt_present no_params =
     (Returns \<lparr>success = True, stdout = ''ok'', stderr = [], code = None\<rparr>,
      [\<lparr>exe = ''sbcl'', args = [''--version''], cwd = None\<rparr>])
   \<and> franklin_version rt_present no_params =
     (Returns \<lparr>success = True, stdout = ''ok'', stderr = [], code = None\<rparr>,
      [\<lparr>exe = ''julia'', args = [''--version''], cwd = None\<rparr>])"
  by (simp add: coleslaw_version_def franklin_version_def runtime_eval runner_eval)



section \<open>Waiting for the process\<close>

text \<open>
  Claim C9 says that an invocation that runs past 120 seconds is terminated and
  answered with a timeout failure. No runner passes a timeout or an abort signal
  to \<^verbatim>\<open>Deno.Command\<close>: a process that takes 200 seconds is awaited, and its
  successful result is returned.
\<close>

theorem slow_process_is_awaited:
  "proc rt_slow \<lparr>exe = ''julia'', args = [''-e'', ''using Franklin; publish()''], cwd = Some ''.''\<rparr>
     = Exits 200000 ok_output
   \<and> franklin_publish rt_slow no_params =
     (Returns \<lparr>success = True, stdout = ''ok'', stderr = [], code = Some 0\<rparr>,
      [\<lparr>exe = ''julia'', args = [''-e'', ''using Franklin; publish()''], cwd = Some ''.''\<rparr>])"
  by (simp add: franklin_publish_def franklin_validatePath_def runtime_eval runner_eval)

text \<open>
  Claim C9, as the code has it. Each of the five runners spawns its command once
  and waits for the exit: when the process exits, after any number of
  milliseconds, the Result is made of its output; when it never exits, the call
  stays pending. The elapsed time decides nothing.
\<close>

theorem runners_have_no_timeout:
  assumes "cwd_or_current rt dir = Inr d"
  shows "(proc rt \<lparr>exe = ''julia'', args = [''-e'', src], cwd = Some d\<rparr> = Exits ms out \<longrightarrow>
            runJulia rt src dir =
              (Returns (of_output out), [\<lparr>exe = ''julia'', args = [''-e'', src], cwd = Some d\<rparr>]))
    \<and> (proc rt \<lparr>exe = ''julia'', args = [''-e'', src], cwd = Some d\<rparr> = NeverExits \<longrightarrow>
            runJulia rt src dir = (Pends, [\<lparr>exe = ''julia'', args = [''-e'', src], cwd = Some d\<rparr>]))
    \<and> (proc rt \<lparr>exe = ''sbcl'', args = [''--eval'', ''(ql:quickload :coleslaw)'', ''--eval'', src, ''--quit''],
                 cwd = Some d\<rparr> = Exits ms out \<longrightarrow>
            runColeslaw rt src dir =
              (Returns (of_output out),
               [\<lparr>exe = ''sbcl'', args = [''--eval'', ''(ql:quickload :coleslaw)'', ''--eval'', src, ''--quit''],
                 cwd = Some d\<rparr>]))
    \<and> (proc rt \<lparr>exe = ''sbcl'', args = [''--eval'', ''(ql:quickload :coleslaw)'', ''--eval'', src, ''--quit''],
                 cwd = Some d\<rparr> = NeverExits \<longrightarrow>
            runColeslaw rt src dir =
              (Pends,
               [\<lparr>exe = ''sbcl'', args = [''--eval'', ''(ql:quickload :coleslaw)'', ''--eval'', src, ''--quit''],
                 cwd = Some d\<rparr>]))
    \<and> (proc rt \<lparr>exe = ''sbcl'', args = ''--script'' # a, cwd = Some d\<rparr> = Exits ms out \<longrightarrow>
            coleslaw_runCommand rt a dir =
              (Returns (of_output out), [\<lparr>exe = ''sbcl'', args = ''--script'' # a, cwd = Some d\<rparr>]))
    \<and> (proc rt \<lparr>exe = ''sbcl'', args = ''--script'' # a, cwd = Some d\<rparr> = NeverExits \<longrightarrow>
            coleslaw_runCommand rt a dir =
              (Pends, [\<lparr>exe = ''sbcl'', args = ''--script'' # a, cwd = Some d\<rparr>]))
    \<and> (proc rt \<lparr>exe = ''mill'', args = a, cwd = Some d\<rparr> = Exits ms out \<longrightarrow>
            scalatex_runCommand rt a dir =
              (Returns (of_output out), [\<lparr>exe = ''mill'', args = a, cwd = Some d\<rparr>]))
    \<and> (proc rt \<lparr>exe = ''mill'', args = a, cwd = Some d\<rparr> = NeverExits \<longrightarrow>
            scalatex_runCommand rt a dir = (Pends, [\<lparr>exe = ''mill'', args = a, cwd = Some d\<rparr>]))
    \<and> (proc rt \<lparr>exe = ''sbt'', args = a, cwd = Some d\<rparr> = Exits ms out \<longrightarrow>
            runSbt rt a dir = (Returns (of_output out), [\<lparr>exe = ''sbt'', args = a, cwd = Some d\<rparr>]))
    \<and> (proc rt \<lparr>exe = ''sbt'', args = a, cwd = Some d\<rparr> = NeverExits \<longrightarrow>
            runSbt rt a dir = (Pends, [\<lparr>exe = ''sbt'', args = a, cwd = Some d\<rparr>]))"
proof -
  have waits: "proc rt \<lparr>exe = b, args = xs, cwd = Some d\<rparr> = Exits ms out \<Longrightarrow>
      run_in rt b xs dir = (Returns (of_output out), [\<lparr>exe = b, args = xs, cwd = Some d\<rparr>])" for b xs
    using assms by (simp add: run_in_unfold)
  have pends: "proc rt \<lparr>exe = b, args = xs, cwd = Some d\<rparr> = NeverExits \<Longrightarrow>
      run_in rt b xs dir = (Pends, [\<lparr>exe = b, args = xs, cwd = Some d\<rparr>])" for b xs
    using assms by (simp add: run_in_unfold)
  show ?thesis
    unfolding runJulia_def runColeslaw_def coleslaw_runCommand_def scalatex_runCommand_def
      runSbt_def sblPath_def juliaPath_def millPath_def
    using waits pends by simp
qed

theorem runners_have_no_timeout_witness:
  "cwd_or_current rt_slow (Some ''site'') = Inr ''site''
   \<and> proc rt_slow \<lparr>exe = ''julia'', args = [''-e'', ''using Franklin; publish()''], cwd = Some ''site''\<rparr>
       = Exits 200000 ok_output
   \<and> runJulia rt_slow ''using Franklin; publish()'' (Some ''site'') =
       (Returns (of_output ok_output),
        [\<lparr>exe = ''julia'', args = [''-e'', ''using Franklin; publish()''], cwd = Some ''site''\<rparr>])"
proof -
  have dir: "cwd_or_current rt_slow (Some ''site'') = Inr ''site''"
    by (simp add: cwd_or_current_def)
  have slow: "proc rt_slow \<lparr>exe = ''julia'', args = [''-e'', ''using Franklin; publish()''], cwd = Some ''site''\<rparr>
       = Exits 200000 ok_output"
    by (simp add: rt_slow_def)
  from runners_have_no_timeout [OF dir, THEN conjunct1, rule_format, OF slow] dir slow
  show ?thesis by (intro conjI)
qed

section \<open>The connection flag\<close>

text \<open>
  Claim C6 speaks of four states and has \<^verbatim>\<open>connect()\<close> against a missing binary
  end in the state \<^verbatim>\<open>error\<close>. The adapters keep one boolean: after a failed
  \<^verbatim>\<open>connect()\<close> the state is the one the module started in, the same that
  \<^verbatim>\<open>disconnect()\<close> leaves, and nothing tells a failed probe from no probe.
\<close>

theorem failed_connect_leaves_initial_state:
  "coleslaw_connect rt_missing initial_connected =
     ((Returns False, [\<lparr>exe = ''sbcl'', args = [''--version''], cwd = None\<rparr>]), initial_connected)
   \<and> franklin_connect rt_missing initial_connected =
     ((Returns False, [\<lparr>exe = ''julia'', args = [''--version''], cwd = None\<rparr>]), initial_connected)
   \<and> scalatex_connect rt_missing initial_connected =
     ((Returns False, [\<lparr>exe = ''mill'', args = [''--version''], cwd = Some ''/srv/site''\<rparr>]),
      initial_connected)"
  by (simp add: coleslaw_connect_def franklin_connect_def scalatex_connect_def initial_connected_def
      runtime_eval runner_eval)

text \<open>
  Claim C6, as the code has it. The state is the flag \<^verbatim>\<open>connected\<close>. From any
  state \<open>c\<close>: when the probe cannot be spawned, \<^verbatim>\<open>connect()\<close> returns
  \<^verbatim>\<open>false\<close> and clears the flag (ScalaTex does so as soon as Mill cannot be
  spawned, without trying sbt); when the probe exits successfully it returns
  \<^verbatim>\<open>true\<close> and sets the flag; \<^verbatim>\<open>disconnect()\<close> clears the flag, and
  \<^verbatim>\<open>isConnected()\<close> reads it.
\<close>

theorem lifecycle_is_a_flag:
  "(proc rt \<lparr>exe = ''sbcl'', args = [''--version''], cwd = None\<rparr> = SpawnFails e \<longrightarrow>
      coleslaw_connect rt c =
        ((Returns False, [\<lparr>exe = ''sbcl'', args = [''--version''], cwd = None\<rparr>]), False))
   \<and> (proc rt \<lparr>exe = ''sbcl'', args = [''--version''], cwd = None\<rparr> = Exits ms out \<and> out_success out \<longrightarrow>
      coleslaw_connect rt c =
        ((Returns True, [\<lparr>exe = ''sbcl'', args = [''--version''], cwd = None\<rparr>]), True))
   \<and> (proc rt \<lparr>exe = ''julia'', args = [''--version''], cwd = None\<rparr> = SpawnFails e \<longrightarrow>
      franklin_connect rt c =
        ((Returns False, [\<lparr>exe = ''julia'', args = [''--version''], cwd = None\<rparr>]), False))
   \<and> (proc rt \<lparr>exe = ''julia'', args = [''--version''], cwd = None\<rparr> = Exits ms out \<and> out_success out \<longrightarrow>
      franklin_connect rt c =
        ((Returns True, [\<lparr>exe = ''julia'', args = [''--version''], cwd = None\<rparr>]), True))
   \<and> (deno_cwd rt = Inr d \<and> proc rt \<lparr>exe = ''mill'', args = [''--version''], cwd = Some d\<rparr> = SpawnFails e \<longrightarrow>
      scalatex_connect rt c =
        ((Returns False, [\<lparr>exe = ''mill'', args = [''--version''], cwd = Some d\<rparr>]), False))
   \<and> (deno_cwd rt = Inr d \<and> proc rt \<lparr>exe = ''mill'', args = [''--version''], cwd = Some d\<rparr> = Exits ms out
        \<and> out_success out \<longrightarrow>
      scalatex_connect rt c =
        ((Returns True, [\<lparr>exe = ''mill'', args = [''--version''], cwd = Some d\<rparr>]), True))
   \<and> disconnect c = False \<and> isConnected c = c \<and> isConnected (disconnect c) = False
   \<and> isConnected initial_connected = False"
proof -
  have coleslaw: "coleslaw_connect rt c =
      (case proc rt \<lparr>exe = ''sbcl'', args = [''--version''], cwd = None\<rparr> of
         SpawnFails e \<Rightarrow> ((Returns False, [\<lparr>exe = ''sbcl'', args = [''--version''], cwd = None\<rparr>]), False)
       | Exits ms out \<Rightarrow>
           ((Returns (out_success out), [\<lparr>exe = ''sbcl'', args = [''--version''], cwd = None\<rparr>]),
            out_success out)
       | NeverExits \<Rightarrow> ((Pends, [\<lparr>exe = ''sbcl'', args = [''--version''], cwd = None\<rparr>]), c))"
    by (simp add: coleslaw_connect_def cmd_output_def sblPath_def split: proc_outcome.splits)
  have franklin: "franklin_connect rt c =
      (case proc rt \<lparr>exe = ''julia'', args = [''--version''], cwd = None\<rparr> of
         SpawnFails e \<Rightarrow> ((Returns False, [\<lparr>exe = ''julia'', args = [''--version''], cwd = None\<rparr>]), False)
       | Exits ms out \<Rightarrow>
           ((Returns (out_success out), [\<lparr>exe = ''julia'', args = [''--version''], cwd = None\<rparr>]),
            out_success out)
       | NeverExits \<Rightarrow> ((Pends, [\<lparr>exe = ''julia'', args = [''--version''], cwd = None\<rparr>]), c))"
    by (simp add: franklin_connect_def cmd_output_def juliaPath_def split: proc_outcome.splits)
  have mill_missing: "scalatex_connect rt c =
        ((Returns False, [\<lparr>exe = ''mill'', args = [''--version''], cwd = Some d\<rparr>]), False)"
    if "deno_cwd rt = Inr d" "proc rt \<lparr>exe = ''mill'', args = [''--version''], cwd = Some d\<rparr> = SpawnFails e"
    using that
    by (simp add: scalatex_connect_def scalatex_runCommand_def millPath_def run_in_unfold
        cwd_or_current_def)
  have mill_present: "scalatex_connect rt c =
        ((Returns True, [\<lparr>exe = ''mill'', args = [''--version''], cwd = Some d\<rparr>]), True)"
    if "deno_cwd rt = Inr d" "proc rt \<lparr>exe = ''mill'', args = [''--version''], cwd = Some d\<rparr> = Exits ms out"
      "out_success out"
    using that
    by (simp add: scalatex_connect_def scalatex_runCommand_def millPath_def run_in_unfold
        cwd_or_current_def of_output_def)
  show ?thesis
    using mill_missing mill_present
    by (simp add: coleslaw franklin disconnect_def isConnected_def initial_connected_def)
qed

theorem lifecycle_is_a_flag_witness:
  "coleslaw_connect rt_missing True =
     ((Returns False, [\<lparr>exe = ''sbcl'', args = [''--version''], cwd = None\<rparr>]), False)
   \<and> coleslaw_connect rt_present False =
     ((Returns True, [\<lparr>exe = ''sbcl'', args = [''--version''], cwd = None\<rparr>]), True)
   \<and> isConnected True = True"
proof -
  have missing: "proc rt_missing \<lparr>exe = ''sbcl'', args = [''--version''], cwd = None\<rparr>
      = SpawnFails (Error ''NotFound: Failed to spawn: entity not found'')"
    by (simp add: rt_missing_def)
  have present: "proc rt_present \<lparr>exe = ''sbcl'', args = [''--version''], cwd = None\<rparr> = Exits 40 ok_output
      \<and> out_success ok_output"
    by (simp add: rt_present_def ok_output_def out_success_def)
  note a = lifecycle_is_a_flag [THEN conjunct1, rule_format, OF missing]
  note b = lifecycle_is_a_flag [THEN conjunct2, THEN conjunct1, rule_format, OF present]
  note c = lifecycle_is_a_flag [where c = True, THEN conjunct2, THEN conjunct2, THEN conjunct2,
      THEN conjunct2, THEN conjunct2, THEN conjunct2, THEN conjunct2, THEN conjunct1]
  show ?thesis
    by (rule conjI [OF a conjI [OF b c]])
qed

section \<open>A missing path\<close>

text \<open>
  Claim C8 says that \<^verbatim>\<open>validatePath\<close> of a missing input is \<^verbatim>\<open>"."\<close> in every
  adapter. ScalaTex's returns \<^verbatim>\<open>null\<close>.
\<close>

theorem scalatex_validatePath_missing_is_null:
  "scalatex_validatePath Undefined = Inr None"
  by simp

text \<open>
  Claim C8, as the code has it. For a missing input (\<^verbatim>\<open>undefined\<close>, \<^verbatim>\<open>null\<close>,
  any falsy value) Coleslaw's and Franklin.jl's \<^verbatim>\<open>validatePath\<close> return
  \<^verbatim>\<open>"."\<close>; ScalaTex's returns \<^verbatim>\<open>null\<close>, for which its runner takes
  \<^verbatim>\<open>Deno.cwd()\<close> as the working directory.
\<close>

theorem validatePath_of_missing_input:
  assumes "\<not> truthy v"
  shows "coleslaw_validatePath v = Inr ''.'' \<and> franklin_validatePath v = Inr ''.''
    \<and> scalatex_validatePath v = Inr None
    \<and> scalatex_runCommand rt a None =
        (case deno_cwd rt of
           Inl e \<Rightarrow> (Throws e, [])
         | Inr d \<Rightarrow> scalatex_runCommand rt a (Some d))"
proof -
  have "scalatex_runCommand rt a None =
        (case deno_cwd rt of
           Inl e \<Rightarrow> (Throws e, [])
         | Inr d \<Rightarrow> scalatex_runCommand rt a (Some d))"
    by (simp add: scalatex_runCommand_def run_in_def cwd_or_current_def split: sum.splits)
  with assms show ?thesis
    by (simp add: coleslaw_validatePath_def franklin_validatePath_def)
qed

theorem validatePath_of_missing_input_witness:
  "coleslaw_validatePath Undefined = Inr ''.'' \<and> franklin_validatePath Null = Inr ''.''
   \<and> scalatex_validatePath Null = Inr None"
proof -
  have u: "\<not> truthy Undefined" and n: "\<not> truthy Null"
    by simp_all
  note a = validatePath_of_missing_input [OF u, of rt_present "[]", THEN conjunct1]
  note b = validatePath_of_missing_input [OF n, of rt_present "[]", THEN conjunct2, THEN conjunct1]
  note c = validatePath_of_missing_input [OF n, of rt_present "[]", THEN conjunct2, THEN conjunct2,
      THEN conjunct1]
  show ?thesis
    by (rule conjI [OF a conjI [OF b c]])
qed

section \<open>Dangerous characters\<close>

lemma list_ex_nonempty: "list_ex P s \<Longrightarrow> s \<noteq> []"
  by auto

lemma lisp_special_sanitize:
  "list_ex lisp_special s \<Longrightarrow> sanitizeLispString (Str s) = Inl (Error lisp_special_msg)"
  by simp

lemma julia_special_sanitize:
  "list_ex julia_special s \<Longrightarrow> sanitizeJuliaString (Str s) = Inl (Error julia_special_msg)"
  by simp

lemma lisp_special_path:
  "list_ex lisp_special s \<Longrightarrow> coleslaw_validatePath (Str s) = Inl (Error lisp_special_msg)"
  by (frule list_ex_nonempty) (simp add: coleslaw_validatePath_def)

lemma julia_special_path:
  "list_ex julia_special s \<Longrightarrow> franklin_validatePath (Str s) = Inl (Error julia_special_msg)"
  by (frule list_ex_nonempty) (simp add: franklin_validatePath_def)

lemma julia_special_not_host_char: "julia_special c \<Longrightarrow> \<not> host_char c"
  by (auto simp: julia_special_def host_char_def is_alnum_def is_lower_def is_upper_def is_digit_def)

lemma julia_special_host:
  assumes "list_ex julia_special s"
  shows "sanitizeHost (Str s) = Inl (Error host_msg)"
proof -
  from assms obtain c where "c \<in> set s" "julia_special c"
    by (auto simp: list_ex_iff)
  then have "\<not> list_all host_char s"
    by (auto simp: list_all_iff dest: julia_special_not_host_char)
  then show ?thesis by simp
qed

lemma scala_special_path:
  assumes "list_ex scala_path_special s"
  shows "\<exists>e. scalatex_validatePath (Str s) = Inl e"
  using assms list_ex_nonempty [OF assms] by simp

lemma scala_special_not_identifier_char:
  "scala_path_special c \<Longrightarrow> \<not> (is_alnum c \<or> is_lower c \<or> is_upper c \<or> c = CHR ''_'')"
  by (auto simp: scala_path_special_def is_alnum_def is_lower_def is_upper_def is_digit_def)

lemma is_identifier_chars:
  "is_identifier s \<Longrightarrow> list_all (\<lambda>d. is_alnum d \<or> is_lower d \<or> is_upper d \<or> d = CHR ''_'') s"
  by (cases s) (auto simp: list_all_iff)

lemma scala_special_module:
  assumes "list_ex scala_path_special s"
  shows "validateModuleName (Str s) = Inl (Error module_ident_msg)"
proof -
  from assms obtain c where c: "c \<in> set s" "scala_path_special c"
    by (auto simp: list_ex_iff)
  have "\<not> is_identifier s"
  proof
    assume "is_identifier s"
    from is_identifier_chars [OF this] c(1)
    have "is_alnum c \<or> is_lower c \<or> is_upper c \<or> c = CHR ''_''"
      by (simp add: list_all_iff)
    with scala_special_not_identifier_char [OF c(2)] show False by simp
  qed
  with list_ex_nonempty [OF assms] show ?thesis by simp
qed

lemma coleslaw_init_rejects:
  "p ''path'' = Str s \<Longrightarrow> list_ex lisp_special s \<Longrightarrow>
     \<exists>e. coleslaw_init rt p = (Returns (failure e), [])"
  by (auto simp: coleslaw_init_def lisp_special_path)

lemma coleslaw_build_rejects:
  "p ''path'' = Str s \<Longrightarrow> list_ex lisp_special s \<Longrightarrow>
     \<exists>e. coleslaw_build rt p = (Returns (failure e), [])"
  by (auto simp: coleslaw_build_def lisp_special_path)

lemma coleslaw_preview_rejects:
  "p ''path'' = Str s \<Longrightarrow> list_ex lisp_special s \<Longrightarrow>
     \<exists>e. coleslaw_preview rt p = (Returns (failure e), [])"
  by (auto simp: coleslaw_preview_def lisp_special_path)

lemma coleslaw_new_post_rejects:
  assumes "p ''path'' = Str s \<or> p ''title'' = Str s" and "list_ex lisp_special s"
  shows "\<exists>e. coleslaw_new_post rt p = (Returns (failure e), [])"
proof (cases "coleslaw_validatePath (p ''path'')")
  case (Inl e)
  then show ?thesis by (auto simp: coleslaw_new_post_def)
next
  case (Inr d)
  with assms lisp_special_path [OF assms(2)] have "p ''title'' = Str s"
    by auto
  with Inr assms(2) show ?thesis
    by (auto simp: coleslaw_new_post_def lisp_special_sanitize simp del: sanitizeLispString.simps)
qed

lemma franklin_newsite_rejects:
  assumes "p ''path'' = Str s \<or> p ''template'' = Str s" and "list_ex julia_special s"
  shows "\<exists>e. franklin_newsite rt p = (Returns (failure e), [])"
proof (cases "franklin_validatePath (p ''path'')")
  case (Inl e)
  then show ?thesis by (auto simp: franklin_newsite_def)
next
  case (Inr d)
  with assms julia_special_path [OF assms(2)] have "p ''template'' = Str s"
    by auto
  with Inr assms(2) list_ex_nonempty [OF assms(2)] show ?thesis
    by (auto simp: franklin_newsite_def julia_special_sanitize simp del: sanitizeJuliaString.simps)
qed

lemma franklin_serve_rejects:
  assumes "p ''path'' = Str s \<or> p ''host'' = Str s" and "list_ex julia_special s"
  shows "\<exists>e. franklin_serve rt p = (Returns (failure e), [])"
proof (cases "franklin_validatePath (p ''path'')")
  case (Inl e)
  then show ?thesis by (auto simp: franklin_serve_def)
next
  case (Inr d)
  with assms julia_special_path [OF assms(2)] have host: "p ''host'' = Str s"
    by auto
  show ?thesis
  proof (cases "truthy (p ''port'')")
    case True
    show ?thesis
    proof (cases "validatePort (p ''port'')")
      case (Inl e)
      with Inr True show ?thesis by (auto simp: franklin_serve_def)
    next
      case (Inr n)
      with \<open>franklin_validatePath (p ''path'') = Inr d\<close> True host list_ex_nonempty [OF assms(2)]
      show ?thesis
        by (auto simp: franklin_serve_def julia_special_host [OF assms(2)] simp del: sanitizeHost.simps)
    qed
  next
    case False
    with Inr host list_ex_nonempty [OF assms(2)] show ?thesis
      by (auto simp: franklin_serve_def julia_special_host [OF assms(2)] simp del: sanitizeHost.simps)
  qed
qed

lemma franklin_optimize_rejects:
  "p ''path'' = Str s \<Longrightarrow> list_ex julia_special s \<Longrightarrow>
     \<exists>e. franklin_optimize rt p = (Returns (failure e), [])"
  by (auto simp: franklin_optimize_def julia_special_path)

lemma franklin_publish_rejects:
  "p ''path'' = Str s \<Longrightarrow> list_ex julia_special s \<Longrightarrow>
     \<exists>e. franklin_publish rt p = (Returns (failure e), [])"
  by (auto simp: franklin_publish_def julia_special_path)

lemma scalatex_module_tool_rejects:
  assumes "p ''path'' = Str s \<or> p ''module'' = Str s" and "list_ex scala_path_special s"
  shows "\<exists>e. scalatex_module_tool f rt p = (Returns (failure e), [])"
proof (cases "scalatex_validatePath (p ''path'')")
  case (Inl e)
  then show ?thesis by (auto simp: scalatex_module_tool_def)
next
  case (Inr d)
  with assms scala_special_path [OF assms(2)] have "p ''module'' = Str s"
    by (auto simp del: scalatex_validatePath.simps)
  with Inr show ?thesis
    by (auto simp: scalatex_module_tool_def scala_special_module [OF assms(2)] simp del: scalatex_validatePath.simps validateModuleName.simps)
qed

lemma scalatex_clean_rejects:
  assumes "p ''path'' = Str s" and "list_ex scala_path_special s"
  shows "\<exists>e. scalatex_clean rt p = (Returns (failure e), [])"
proof -
  from scala_special_path [OF assms(2)] obtain e where "scalatex_validatePath (Str s) = Inl e"
    by blast
  with assms(1) show ?thesis
    by (auto simp: scalatex_clean_def simp del: scalatex_validatePath.simps)
qed

text \<open>
  Claim C2 says that any input with a dangerous character stops the operation
  before a process is spawned. A port is read by \<^verbatim>\<open>parseInt\<close>, not by the
  sanitizer: \<^verbatim>\<open>franklin_serve\<close> with the port \<^verbatim>\<open>"80`"\<close> spawns Julia, with the
  clean integer 80 in the source text.
\<close>

theorem port_with_backtick_is_spawned:
  "julia_special (CHR 0x60)
   \<and> franklin_serve rt_present (no_params(''port'' := Str (''80'' @ [CHR 0x60]))) =
     (Returns \<lparr>success = True, stdout = ''ok'', stderr = [], code = Some 0\<rparr>,
      [\<lparr>exe = ''julia'', args = [''-e'', ''using Franklin; serve(port=80)''], cwd = Some ''.''\<rparr>])"
  by (simp add: julia_special_def franklin_serve_def franklin_validatePath_def validatePort_def
      parseInt10_def is_space_def is_digit_def digits_value_def show_int_eval
      runtime_eval runner_eval)

text \<open>
  Claim C2, as the code has it. For every operation and every parameter that its
  \<^verbatim>\<open>inputSchema\<close> declares as a string: when the value is a string with a
  character of the adapter's reject set (Lisp's for Coleslaw, Julia's for
  Franklin.jl, the path set for ScalaTex), the operation returns a failure record
  and spawns nothing, whatever the other parameters are. The two sanitizers fail
  on such a string with their own message.
\<close>

theorem string_parameters_with_metacharacters_are_rejected:
  "(\<forall>t\<in>set coleslaw_tools. \<forall>k. (k, ''string'') \<in> set (properties t) \<and> p k = Str s
        \<and> list_ex lisp_special s \<longrightarrow> (\<exists>e. execute t rt (Some p) = (Returns (failure e), [])))
   \<and> (\<forall>t\<in>set franklin_tools. \<forall>k. (k, ''string'') \<in> set (properties t) \<and> p k = Str s
        \<and> list_ex julia_special s \<longrightarrow> (\<exists>e. execute t rt (Some p) = (Returns (failure e), [])))
   \<and> (\<forall>t\<in>set scalatex_tools. \<forall>k. (k, ''string'') \<in> set (properties t) \<and> p k = Str s
        \<and> list_ex scala_path_special s \<longrightarrow> (\<exists>e. execute t rt (Some p) = (Returns (failure e), [])))
   \<and> (list_ex lisp_special s \<longrightarrow> sanitizeLispString (Str s) = Inl (Error lisp_special_msg))
   \<and> (list_ex julia_special s \<longrightarrow> sanitizeJuliaString (Str s) = Inl (Error julia_special_msg))"
proof -
  have coleslaw: "\<forall>t\<in>set coleslaw_tools. \<forall>k. (k, ''string'') \<in> set (properties t) \<and> p k = Str s
        \<and> list_ex lisp_special s \<longrightarrow> (\<exists>e. execute t rt (Some p) = (Returns (failure e), []))"
    unfolding coleslaw_tools_def with_params_def
    using coleslaw_init_rejects [of p s rt] coleslaw_build_rejects [of p s rt]
      coleslaw_preview_rejects [of p s rt] coleslaw_new_post_rejects [of p s rt]
    by auto
  have franklin: "\<forall>t\<in>set franklin_tools. \<forall>k. (k, ''string'') \<in> set (properties t) \<and> p k = Str s
        \<and> list_ex julia_special s \<longrightarrow> (\<exists>e. execute t rt (Some p) = (Returns (failure e), []))"
    unfolding franklin_tools_def with_params_def
    using franklin_newsite_rejects [of p s rt] franklin_serve_rejects [of p s rt]
      franklin_optimize_rejects [of p s rt] franklin_publish_rejects [of p s rt]
    by auto
  have scalatex: "\<forall>t\<in>set scalatex_tools. \<forall>k. (k, ''string'') \<in> set (properties t) \<and> p k = Str s
        \<and> list_ex scala_path_special s \<longrightarrow> (\<exists>e. execute t rt (Some p) = (Returns (failure e), []))"
    unfolding scalatex_tools_def scalatex_compile_def scalatex_run_def scalatex_watch_def
      with_params_def
    using scalatex_module_tool_rejects [of p s _ rt] scalatex_clean_rejects [of p s rt]
    by auto
  have sanitizers: "(list_ex lisp_special s \<longrightarrow> sanitizeLispString (Str s) = Inl (Error lisp_special_msg))
      \<and> (list_ex julia_special s \<longrightarrow> sanitizeJuliaString (Str s) = Inl (Error julia_special_msg))"
    by simp
  show ?thesis
    by (rule conjI [OF coleslaw conjI [OF franklin conjI [OF scalatex sanitizers]]])
qed

theorem string_parameters_with_metacharacters_are_rejected_witness:
  "coleslaw_tools ! 3 \<in> set coleslaw_tools
   \<and> (''title'', ''string'') \<in> set (properties (coleslaw_tools ! 3))
   \<and> list_ex lisp_special ''a(b''
   \<and> (\<exists>e. execute (coleslaw_tools ! 3) rt_present (Some (no_params(''title'' := Str ''a(b''))) =
          (Returns (failure e), []))"
proof -
  have member: "coleslaw_tools ! 3 \<in> set coleslaw_tools"
    by (simp add: coleslaw_tools_def)
  have declared: "(''title'', ''string'') \<in> set (properties (coleslaw_tools ! 3))"
    by (simp add: coleslaw_tools_def)
  have special: "list_ex lisp_special ''a(b''"
    by (simp add: lisp_special_def)
  have given: "(no_params(''title'' := Str ''a(b'')) ''title'' = Str ''a(b''"
    by simp
  from declared given special
  have hyp: "(''title'', ''string'') \<in> set (properties (coleslaw_tools ! 3))
      \<and> (no_params(''title'' := Str ''a(b'')) ''title'' = Str ''a(b'' \<and> list_ex lisp_special ''a(b''"
    by (intro conjI)
  note rejected = string_parameters_with_metacharacters_are_rejected
    [where p = "no_params(''title'' := Str ''a(b'')" and s = "''a(b''" and rt = rt_present,
      THEN conjunct1, THEN bspec, OF member, THEN spec, THEN mp, OF hyp]
  from member declared special rejected show ?thesis
    by (intro conjI)
qed

section \<open>Required and non-string parameters\<close>

text \<open>
  Claim C7 says that an operation called without a required parameter fails
  before the runner. \<^verbatim>\<open>coleslaw_new_post\<close> declares \<^verbatim>\<open>title\<close> required; called
  with no parameter at all it spawns SBCL with an empty title and returns the
  process's success.
\<close>

theorem new_post_without_title_runs:
  "required (coleslaw_tools ! 3) = [''title'']
   \<and> execute (coleslaw_tools ! 3) rt_present (Some no_params) =
     (Returns \<lparr>success = True, stdout = ''ok'', stderr = [], code = Some 0\<rparr>,
      [\<lparr>exe = ''sbcl'',
        args = [''--eval'', ''(ql:quickload :coleslaw)'', ''--eval'',
                ''(coleslaw:new-post '' @ dq @ dq @ '')'', ''--quit''],
        cwd = Some ''.''\<rparr>])"
  by (simp add: coleslaw_tools_def coleslaw_new_post_def coleslaw_validatePath_def
      runtime_eval runner_eval)

text \<open>
  Claim C7, as the code has it. \<^verbatim>\<open>coleslaw_new_post\<close> is the only operation with a
  required parameter, \<^verbatim>\<open>title\<close>. With the title missing, the path alone decides:
  a rejected path gives the failure record with nothing spawned; an accepted path
  leads to the runner with \<^verbatim>\<open>(coleslaw:new-post "")\<close>; and with the path
  missing too, that command is spawned in \<^verbatim>\<open>"."\<close> and the Result follows the
  process.
\<close>

theorem required_title_is_not_enforced:
  "(\<forall>t\<in>set all_tools. required t \<noteq> [] \<longrightarrow>
       tool_name t = ''coleslaw_new_post'' \<and> required t = [''title''] \<and> execute t = with_params coleslaw_new_post)
   \<and> (p ''title'' = Undefined \<and> coleslaw_validatePath (p ''path'') = Inl e \<longrightarrow>
        coleslaw_new_post rt p = (Returns (failure e), []))
   \<and> (p ''title'' = Undefined \<and> coleslaw_validatePath (p ''path'') = Inr d \<longrightarrow>
        coleslaw_new_post rt p =
          catch_failure (runColeslaw rt (''(coleslaw:new-post '' @ dq @ dq @ '')'') (Some d)))
   \<and> (p ''title'' = Undefined \<and> \<not> truthy (p ''path'') \<longrightarrow>
        snd (coleslaw_new_post rt p) =
          [\<lparr>exe = ''sbcl'',
            args = [''--eval'', ''(ql:quickload :coleslaw)'', ''--eval'',
                    ''(coleslaw:new-post '' @ dq @ dq @ '')'', ''--quit''],
            cwd = Some ''.''\<rparr>]
        \<and> fst (coleslaw_new_post rt p) =
          (case proc rt \<lparr>exe = ''sbcl'',
                  args = [''--eval'', ''(ql:quickload :coleslaw)'', ''--eval'',
                          ''(coleslaw:new-post '' @ dq @ dq @ '')'', ''--quit''],
                  cwd = Some ''.''\<rparr> of
             SpawnFails e \<Rightarrow> Returns (failure e)
           | Exits ms out \<Rightarrow> Returns (of_output out)
           | NeverExits \<Rightarrow> Pends))"
proof -
  have only: "\<forall>t\<in>set all_tools. required t \<noteq> [] \<longrightarrow>
       tool_name t = ''coleslaw_new_post'' \<and> required t = [''title''] \<and> execute t = with_params coleslaw_new_post"
    by (simp add: all_tools_def coleslaw_tools_def franklin_tools_def scalatex_tools_def)
  have rejected: "p ''title'' = Undefined \<and> coleslaw_validatePath (p ''path'') = Inl e \<longrightarrow>
        coleslaw_new_post rt p = (Returns (failure e), [])"
    by (simp add: coleslaw_new_post_def)
  have runs: "p ''title'' = Undefined \<and> coleslaw_validatePath (p ''path'') = Inr d \<longrightarrow>
        coleslaw_new_post rt p =
          catch_failure (runColeslaw rt (''(coleslaw:new-post '' @ dq @ dq @ '')'') (Some d))"
    by (simp add: coleslaw_new_post_def)
  have spawned: "p ''title'' = Undefined \<and> \<not> truthy (p ''path'') \<longrightarrow>
        snd (coleslaw_new_post rt p) =
          [\<lparr>exe = ''sbcl'',
            args = [''--eval'', ''(ql:quickload :coleslaw)'', ''--eval'',
                    ''(coleslaw:new-post '' @ dq @ dq @ '')'', ''--quit''],
            cwd = Some ''.''\<rparr>]
        \<and> fst (coleslaw_new_post rt p) =
          (case proc rt \<lparr>exe = ''sbcl'',
                  args = [''--eval'', ''(ql:quickload :coleslaw)'', ''--eval'',
                          ''(coleslaw:new-post '' @ dq @ dq @ '')'', ''--quit''],
                  cwd = Some ''.''\<rparr> of
             SpawnFails e \<Rightarrow> Returns (failure e)
           | Exits ms out \<Rightarrow> Returns (of_output out)
           | NeverExits \<Rightarrow> Pends)"
    by (simp add: coleslaw_new_post_def coleslaw_validatePath_def runColeslaw_def sblPath_def
        run_in_unfold cwd_or_current_def catch_failure_def split: proc_outcome.splits)
  show ?thesis
    by (rule conjI [OF only conjI [OF rejected conjI [OF runs spawned]]])
qed

theorem required_title_is_not_enforced_witness:
  "no_params ''title'' = Undefined \<and> \<not> truthy (no_params ''path'')
   \<and> snd (coleslaw_new_post rt_missing no_params) =
          [\<lparr>exe = ''sbcl'',
            args = [''--eval'', ''(ql:quickload :coleslaw)'', ''--eval'',
                    ''(coleslaw:new-post '' @ dq @ dq @ '')'', ''--quit''],
            cwd = Some ''.''\<rparr>]"
proof -
  have hyp: "no_params ''title'' = Undefined \<and> \<not> truthy (no_params ''path'')"
    by (simp add: no_params_def)
  note spawned = required_title_is_not_enforced [where p = no_params and rt = rt_missing,
      THEN conjunct2, THEN conjunct2, THEN conjunct2, THEN mp, OF hyp, THEN conjunct1]
  from hyp spawned show ?thesis
    by (intro conjI) simp_all
qed

text \<open>
  Claim C10 says that a non-string parameter reaches the runner as an empty
  string. A missing path, which is \<^verbatim>\<open>undefined\<close>, never reaches the sanitizer:
  \<^verbatim>\<open>coleslaw_init\<close> without a path runs in \<^verbatim>\<open>"."\<close> with \<^verbatim>\<open>(coleslaw:setup ".")\<close>.
  And a non-string port is read by \<^verbatim>\<open>validatePort\<close>: \<^verbatim>\<open>franklin_serve\<close> with the
  port \<^verbatim>\<open>true\<close> returns a validation failure and spawns nothing.
\<close>

theorem missing_path_and_boolean_port_are_not_emptied:
  "coleslaw_init rt_present no_params =
     (Returns \<lparr>success = True, stdout = ''ok'', stderr = [], code = Some 0\<rparr>,
      [\<lparr>exe = ''sbcl'',
        args = [''--eval'', ''(ql:quickload :coleslaw)'', ''--eval'',
                ''(coleslaw:setup '' @ dq @ ''.'' @ dq @ '')'', ''--quit''],
        cwd = Some ''.''\<rparr>])
   \<and> franklin_serve rt_present (no_params(''port'' := Bool True)) =
     (Returns \<lparr>success = False, stdout = [], stderr = port_msg, code = Some 1\<rparr>, [])"
  by (simp add: coleslaw_init_def coleslaw_validatePath_def franklin_serve_def
      franklin_validatePath_def validatePort_def parseInt10_not_text runtime_eval runner_eval)

text \<open>
  Claim C10, as the code has it. For every value \<open>v\<close> that is not a string, both
  sanitizers return the empty string. The operations of Coleslaw and Franklin.jl
  hand a parameter to them in three places, and there such a value is replaced by
  the empty string and is no validation failure: the title of
  \<^verbatim>\<open>coleslaw_new_post\<close>, always; the template of \<^verbatim>\<open>franklin_newsite\<close>, when it is
  truthy; and the path of each of the eight operations, when it is truthy, the
  operation then going on with the empty path to its other parameters and to the
  runner. A falsy value does not reach the sanitizer as a path or a template: the
  path becomes \<^verbatim>\<open>"."\<close> and the template is left out.
\<close>

theorem sanitizers_map_non_strings_to_empty:
  assumes "\<forall>s. v \<noteq> Str s"
  shows "sanitizeLispString v = Inr [] \<and> sanitizeJuliaString v = Inr []
    \<and> (p ''title'' = v \<longrightarrow>
         coleslaw_new_post rt p =
           (case coleslaw_validatePath (p ''path'') of
              Inl e \<Rightarrow> (Returns (failure e), [])
            | Inr d \<Rightarrow>
                catch_failure (runColeslaw rt (''(coleslaw:new-post '' @ dq @ dq @ '')'') (Some d))))
    \<and> (p ''template'' = v \<and> truthy v \<longrightarrow>
         franklin_newsite rt p =
           (case franklin_validatePath (p ''path'') of
              Inl e \<Rightarrow> (Returns (failure e), [])
            | Inr d \<Rightarrow>
                catch_failure (runJulia rt
                  (''using Franklin; newsite('' @ dq @ d @ dq @ '', template='' @ dq @ dq @ '')'') None)))
    \<and> (p ''path'' = v \<and> truthy v \<longrightarrow>
         coleslaw_validatePath v = Inr [] \<and> franklin_validatePath v = Inr []
         \<and> coleslaw_init rt p =
             catch_failure (runColeslaw rt (''(coleslaw:setup '' @ dq @ dq @ '')'') (Some []))
         \<and> coleslaw_build rt p =
             catch_failure (runColeslaw rt (''(coleslaw:main '' @ dq @ dq @ '')'') (Some []))
         \<and> coleslaw_preview rt p =
             (case validatePort (if truthy (p ''port'') then p ''port'' else Num 8080) of
                Inl e \<Rightarrow> (Returns (failure e), [])
              | Inr safePort \<Rightarrow>
                  catch_failure (runColeslaw rt
                    (''(coleslaw:preview :port '' @ Number_toString safePort @ '')'') (Some [])))
         \<and> coleslaw_new_post rt p =
             (case sanitizeLispString (p ''title'') of
                Inl e \<Rightarrow> (Returns (failure e), [])
              | Inr safeTitle \<Rightarrow>
                  catch_failure (runColeslaw rt
                    (''(coleslaw:new-post '' @ dq @ safeTitle @ dq @ '')'') (Some [])))
         \<and> franklin_newsite rt p =
             (case (if truthy (p ''template'')
                    then (case sanitizeJuliaString (p ''template'') of
                            Inl e \<Rightarrow> Inl e
                          | Inr t \<Rightarrow> Inr ('', template='' @ dq @ t @ dq))
                    else Inr []) of
                Inl e \<Rightarrow> (Returns (failure e), [])
              | Inr tmpl \<Rightarrow>
                  catch_failure (runJulia rt
                    (''using Franklin; newsite('' @ dq @ dq @ tmpl @ '')'') None))
         \<and> franklin_serve rt p =
             (case (if truthy (p ''port'')
                    then (case validatePort (p ''port'') of
                            Inl e \<Rightarrow> Inl e
                          | Inr n \<Rightarrow> Inr [''port='' @ Number_toString n])
                    else Inr []) of
                Inl e \<Rightarrow> (Returns (failure e), [])
              | Inr args1 \<Rightarrow>
                  (case (if truthy (p ''host'')
                         then (case sanitizeHost (p ''host'') of
                                 Inl e \<Rightarrow> Inl e
                               | Inr h \<Rightarrow> Inr (args1 @ [''host='' @ dq @ h @ dq]))
                         else Inr args1) of
                     Inl e \<Rightarrow> (Returns (failure e), [])
                   | Inr args2 \<Rightarrow>
                       catch_failure (runJulia rt
                         (''using Franklin; serve('' @ join_comma args2 @ '')'') (Some []))))
         \<and> franklin_optimize rt p =
             (let args1 = (if p ''minify'' \<noteq> Bool False then [''minify=true''] else []);
                  args2 = (if p ''prerender'' \<noteq> Bool False then args1 @ [''prerender=true''] else args1)
              in catch_failure (runJulia rt
                   (''using Franklin; optimize('' @ join_comma args2 @ '')'') (Some [])))
         \<and> franklin_publish rt p =
             catch_failure (runJulia rt ''using Franklin; publish()'' (Some [])))
    \<and> (\<not> truthy v \<longrightarrow>
         coleslaw_validatePath v = Inr ''.'' \<and> franklin_validatePath v = Inr ''.''
         \<and> (p ''template'' = v \<longrightarrow>
              franklin_newsite rt p =
                (case franklin_validatePath (p ''path'') of
                   Inl e \<Rightarrow> (Returns (failure e), [])
                 | Inr d \<Rightarrow>
                     catch_failure (runJulia rt
                       (''using Franklin; newsite('' @ dq @ d @ dq @ '')'') None))))"
proof -
  have lisp: "sanitizeLispString v = Inr []"
    using assms by (cases v) simp_all
  have julia: "sanitizeJuliaString v = Inr []"
    using assms by (cases v) simp_all
  have title: "p ''title'' = v \<longrightarrow>
         coleslaw_new_post rt p =
           (case coleslaw_validatePath (p ''path'') of
              Inl e \<Rightarrow> (Returns (failure e), [])
            | Inr d \<Rightarrow>
                catch_failure (runColeslaw rt (''(coleslaw:new-post '' @ dq @ dq @ '')'') (Some d)))"
    using lisp by (auto simp: coleslaw_new_post_def split: sum.splits)
  have template: "p ''template'' = v \<and> truthy v \<longrightarrow>
         franklin_newsite rt p =
           (case franklin_validatePath (p ''path'') of
              Inl e \<Rightarrow> (Returns (failure e), [])
            | Inr d \<Rightarrow>
                catch_failure (runJulia rt
                  (''using Franklin; newsite('' @ dq @ d @ dq @ '', template='' @ dq @ dq @ '')'') None))"
    using julia by (auto simp: franklin_newsite_def split: sum.splits)
  have path: "p ''path'' = v \<and> truthy v \<longrightarrow>
         coleslaw_validatePath v = Inr [] \<and> franklin_validatePath v = Inr []
         \<and> coleslaw_init rt p =
             catch_failure (runColeslaw rt (''(coleslaw:setup '' @ dq @ dq @ '')'') (Some []))
         \<and> coleslaw_build rt p =
             catch_failure (runColeslaw rt (''(coleslaw:main '' @ dq @ dq @ '')'') (Some []))
         \<and> coleslaw_preview rt p =
             (case validatePort (if truthy (p ''port'') then p ''port'' else Num 8080) of
                Inl e \<Rightarrow> (Returns (failure e), [])
              | Inr safePort \<Rightarrow>
                  catch_failure (runColeslaw rt
                    (''(coleslaw:preview :port '' @ Number_toString safePort @ '')'') (Some [])))
         \<and> coleslaw_new_post rt p =
             (case sanitizeLispString (p ''title'') of
                Inl e \<Rightarrow> (Returns (failure e), [])
              | Inr safeTitle \<Rightarrow>
                  catch_failure (runColeslaw rt
                    (''(coleslaw:new-post '' @ dq @ safeTitle @ dq @ '')'') (Some [])))
         \<and> franklin_newsite rt p =
             (case (if truthy (p ''template'')
                    then (case sanitizeJuliaString (p ''template'') of
                            Inl e \<Rightarrow> Inl e
                          | Inr t \<Rightarrow> Inr ('', template='' @ dq @ t @ dq))
                    else Inr []) of
                Inl e \<Rightarrow> (Returns (failure e), [])
              | Inr tmpl \<Rightarrow>
                  catch_failure (runJulia rt
                    (''using Franklin; newsite('' @ dq @ dq @ tmpl @ '')'') None))
         \<and> franklin_serve rt p =
             (case (if truthy (p ''port'')
                    then (case validatePort (p ''port'') of
                            Inl e \<Rightarrow> Inl e
                          | Inr n \<Rightarrow> Inr [''port='' @ Number_toString n])
                    else Inr []) of
                Inl e \<Rightarrow> (Returns (failure e), [])
              | Inr args1 \<Rightarrow>
                  (case (if truthy (p ''host'')
                         then (case sanitizeHost (p ''host'') of
                                 Inl e \<Rightarrow> Inl e
                               | Inr h \<Rightarrow> Inr (args1 @ [''host='' @ dq @ h @ dq]))
                         else Inr args1) of
                     Inl e \<Rightarrow> (Returns (failure e), [])
                   | Inr args2 \<Rightarrow>
                       catch_failure (runJulia rt
                         (''using Franklin; serve('' @ join_comma args2 @ '')'') (Some []))))
         \<and> franklin_optimize rt p =
             (let args1 = (if p ''minify'' \<noteq> Bool False then [''minify=true''] else []);
                  args2 = (if p ''prerender'' \<noteq> Bool False then args1 @ [''prerender=true''] else args1)
              in catch_failure (runJulia rt
                   (''using Franklin; optimize('' @ join_comma args2 @ '')'') (Some [])))
         \<and> franklin_publish rt p =
             catch_failure (runJulia rt ''using Franklin; publish()'' (Some []))"
  proof (intro impI)
    assume a: "p ''path'' = v \<and> truthy v"
    have cp: "coleslaw_validatePath (p ''path'') = Inr []"
      using a lisp by (simp add: coleslaw_validatePath_def)
    have fp: "franklin_validatePath (p ''path'') = Inr []"
      using a julia by (simp add: franklin_validatePath_def)
    have c1: "coleslaw_validatePath v = Inr [] \<and> franklin_validatePath v = Inr []"
      using a cp fp by simp
    have c2: "coleslaw_init rt p =
             catch_failure (runColeslaw rt (''(coleslaw:setup '' @ dq @ dq @ '')'') (Some []))"
      by (simp add: coleslaw_init_def cp)
    have c3: "coleslaw_build rt p =
             catch_failure (runColeslaw rt (''(coleslaw:main '' @ dq @ dq @ '')'') (Some []))"
      by (simp add: coleslaw_build_def cp)
    have c4: "coleslaw_preview rt p =
             (case validatePort (if truthy (p ''port'') then p ''port'' else Num 8080) of
                Inl e \<Rightarrow> (Returns (failure e), [])
              | Inr safePort \<Rightarrow>
                  catch_failure (runColeslaw rt
                    (''(coleslaw:preview :port '' @ Number_toString safePort @ '')'') (Some [])))"
      by (simp add: coleslaw_preview_def cp)
    have c5: "coleslaw_new_post rt p =
             (case sanitizeLispString (p ''title'') of
                Inl e \<Rightarrow> (Returns (failure e), [])
              | Inr safeTitle \<Rightarrow>
                  catch_failure (runColeslaw rt
                    (''(coleslaw:new-post '' @ dq @ safeTitle @ dq @ '')'') (Some [])))"
      by (simp add: coleslaw_new_post_def cp)
    have c6: "franklin_newsite rt p =
             (case (if truthy (p ''template'')
                    then (case sanitizeJuliaString (p ''template'') of
                            Inl e \<Rightarrow> Inl e
                          | Inr t \<Rightarrow> Inr ('', template='' @ dq @ t @ dq))
                    else Inr []) of
                Inl e \<Rightarrow> (Returns (failure e), [])
              | Inr tmpl \<Rightarrow>
                  catch_failure (runJulia rt
                    (''using Franklin; newsite('' @ dq @ dq @ tmpl @ '')'') None))"
      by (simp add: franklin_newsite_def fp split: sum.splits)
    have c7: "franklin_serve rt p =
             (case (if truthy (p ''port'')
                    then (case validatePort (p ''port'') of
                            Inl e \<Rightarrow> Inl e
                          | Inr n \<Rightarrow> Inr [''port='' @ Number_toString n])
                    else Inr []) of
                Inl e \<Rightarrow> (Returns (failure e), [])
              | Inr args1 \<Rightarrow>
                  (case (if truthy (p ''host'')
                         then (case sanitizeHost (p ''host'') of
                                 Inl e \<Rightarrow> Inl e
                               | Inr h \<Rightarrow> Inr (args1 @ [''host='' @ dq @ h @ dq]))
                         else Inr args1) of
                     Inl e \<Rightarrow> (Returns (failure e), [])
                   | Inr args2 \<Rightarrow>
                       catch_failure (runJulia rt
                         (''using Franklin; serve('' @ join_comma args2 @ '')'') (Some []))))"
      by (simp add: franklin_serve_def fp)
    have c8: "franklin_optimize rt p =
             (let args1 = (if p ''minify'' \<noteq> Bool False then [''minify=true''] else []);
                  args2 = (if p ''prerender'' \<noteq> Bool False then args1 @ [''prerender=true''] else args1)
              in catch_failure (runJulia rt
                   (''using Franklin; optimize('' @ join_comma args2 @ '')'') (Some [])))"
      by (simp add: franklin_optimize_def fp)
    have c9: "franklin_publish rt p =
             catch_failure (runJulia rt ''using Franklin; publish()'' (Some []))"
      by (simp add: franklin_publish_def fp)
    show "coleslaw_validatePath v = Inr [] \<and> franklin_validatePath v = Inr []
         \<and> coleslaw_init rt p =
             catch_failure (runColeslaw rt (''(coleslaw:setup '' @ dq @ dq @ '')'') (Some []))
         \<and> coleslaw_build rt p =
             catch_failure (runColeslaw rt (''(coleslaw:main '' @ dq @ dq @ '')'') (Some []))
         \<and> coleslaw_preview rt p =
             (case validatePort (if truthy (p ''port'') then p ''port'' else Num 8080) of
                Inl e \<Rightarrow> (Returns (failure e), [])
              | Inr safePort \<Rightarrow>
                  catch_failure (runColeslaw rt
                    (''(coleslaw:preview :port '' @ Number_toString safePort @ '')'') (Some [])))
         \<and> coleslaw_new_post rt p =
             (case sanitizeLispString (p ''title'') of
                Inl e \<Rightarrow> (Returns (failure e), [])
              | Inr safeTitle \<Rightarrow>
                  catch_failure (runColeslaw rt
                    (''(coleslaw:new-post '' @ dq @ safeTitle @ dq @ '')'') (Some [])))
         \<and> franklin_newsite rt p =
             (case (if truthy (p ''template'')
                    then (case sanitizeJuliaString (p ''template'') of
                            Inl e \<Rightarrow> Inl e
                          | Inr t \<Rightarrow> Inr ('', template='' @ dq @ t @ dq))
                    else Inr []) of
                Inl e \<Rightarrow> (Returns (failure e), [])
              | Inr tmpl \<Rightarrow>
                  catch_failure (runJulia rt
                    (''using Franklin; newsite('' @ dq @ dq @ tmpl @ '')'') None))
         \<and> franklin_serve rt p =
             (case (if truthy (p ''port'')
                    then (case validatePort (p ''port'') of
                            Inl e \<Rightarrow> Inl e
                          | Inr n \<Rightarrow> Inr [''port='' @ Number_toString n])
                    else Inr []) of
                Inl e \<Rightarrow> (Returns (failure e), [])
              | Inr args1 \<Rightarrow>
                  (case (if truthy (p ''host'')
                         then (case sanitizeHost (p ''host'') of
                                 Inl e \<Rightarrow> Inl e
                               | Inr h \<Rightarrow> Inr (args1 @ [''host='' @ dq @ h @ dq]))
                         else Inr args1) of
                     Inl e \<Rightarrow> (Returns (failure e), [])
                   | Inr args2 \<Rightarrow>
                       catch_failure (runJulia rt
                         (''using Franklin; serve('' @ join_comma args2 @ '')'') (Some []))))
         \<and> franklin_optimize rt p =
             (let args1 = (if p ''minify'' \<noteq> Bool False then [''minify=true''] else []);
                  args2 = (if p ''prerender'' \<noteq> Bool False then args1 @ [''prerender=true''] else args1)
              in catch_failure (runJulia rt
                   (''using Franklin; optimize('' @ join_comma args2 @ '')'') (Some [])))
         \<and> franklin_publish rt p =
             catch_failure (runJulia rt ''using Franklin; publish()'' (Some []))"
      by (rule conjI [OF c1 [THEN conjunct1] conjI [OF c1 [THEN conjunct2] conjI [OF c2 conjI [OF c3
          conjI [OF c4 conjI [OF c5 conjI [OF c6 conjI [OF c7 conjI [OF c8 c9]]]]]]]]])
  qed
  have falsy: "\<not> truthy v \<longrightarrow>
         coleslaw_validatePath v = Inr ''.'' \<and> franklin_validatePath v = Inr ''.''
         \<and> (p ''template'' = v \<longrightarrow>
              franklin_newsite rt p =
                (case franklin_validatePath (p ''path'') of
                   Inl e \<Rightarrow> (Returns (failure e), [])
                 | Inr d \<Rightarrow>
                     catch_failure (runJulia rt
                       (''using Franklin; newsite('' @ dq @ d @ dq @ '')'') None)))"
    by (auto simp: coleslaw_validatePath_def franklin_validatePath_def franklin_newsite_def
        split: sum.splits)
  show ?thesis
    by (rule conjI [OF lisp conjI [OF julia conjI [OF title conjI [OF template
        conjI [OF path falsy]]]]])
qed

theorem sanitizers_map_non_strings_to_empty_witness:
  "sanitizeLispString (Num 5) = Inr [] \<and> sanitizeJuliaString (Num 5) = Inr []
   \<and> coleslaw_build rt_present (no_params(''path'' := Num 5)) =
       catch_failure (runColeslaw rt_present (''(coleslaw:main '' @ dq @ dq @ '')'') (Some []))
   \<and> coleslaw_validatePath Undefined = Inr ''.''"
proof -
  have number: "\<forall>s. Num 5 \<noteq> Str s" and undefined: "\<forall>s. Undefined \<noteq> Str s"
    by simp_all
  have given: "(no_params(''path'' := Num 5)) ''path'' = Num 5 \<and> truthy (Num 5)"
    by simp
  have falsy: "\<not> truthy Undefined"
    by simp
  note t = sanitizers_map_non_strings_to_empty
    [OF number, where p = "no_params(''path'' := Num 5)" and rt = rt_present]
  note a = t [THEN conjunct1]
  note b = t [THEN conjunct2, THEN conjunct1]
  note c = t [THEN conjunct2, THEN conjunct2, THEN conjunct2, THEN conjunct2, THEN conjunct1,
      THEN mp, OF given, THEN conjunct2, THEN conjunct2, THEN conjunct2, THEN conjunct1]
  note d = sanitizers_map_non_strings_to_empty
    [OF undefined, where p = no_params and rt = rt_present,
      THEN conjunct2, THEN conjunct2, THEN conjunct2, THEN conjunct2, THEN conjunct2,
      THEN mp, OF falsy, THEN conjunct1]
  show ?thesis
    by (rule conjI [OF a conjI [OF b conjI [OF c d]]])
qed

end
